theory Spec2Isabelle
  imports Complex_Main "HOL-Library.Word" "HOL-Library.AList" "HOL-Library.Log_Nat"
begin

section \<open>Strings and the built-ins the transforms use\<close>

text \<open>
  A JavaScript string is modelled as a \<^typ>\<open>string\<close>: a list of code units, each below 256.
  Numbers that the code handles as \<open>BigInt\<close> are unbounded integers.
\<close>

definition is_digit :: "char \<Rightarrow> bool" where
  "is_digit c \<longleftrightarrow> c \<in> set ''0123456789''"

definition digit_val :: "char \<Rightarrow> nat" where
  "digit_val c = of_char c - 48"

text \<open>White space removed by \<open>String.prototype.trim\<close>, among the code units below 256:
  TAB, LF, VT, FF, CR, SPACE and NBSP.\<close>

definition is_space :: "char \<Rightarrow> bool" where
  "is_space c \<longleftrightarrow> (of_char c :: nat) \<in> {9, 10, 11, 12, 13, 32, 160}"

definition trim :: "string \<Rightarrow> string" where
  "trim s = rev (dropWhile is_space (rev (dropWhile is_space s)))"

text \<open>\<open>/^[+-]?\d+(\.\d+)?$/.test(s)\<close>: an optional sign, at least one digit, and then
  either the end of the string or a dot followed by at least one digit up to the end.\<close>

definition strip_sign :: "string \<Rightarrow> string" where
  "strip_sign s = (case s of [] \<Rightarrow> [] | c # r \<Rightarrow> if c = CHR ''+'' \<or> c = CHR ''-'' then r else s)"

definition numeric_format :: "string \<Rightarrow> bool" where
  "numeric_format s =
     (let r = strip_sign s;
          w = takeWhile is_digit r;
          t = dropWhile is_digit r
      in w \<noteq> [] \<and>
         (case t of [] \<Rightarrow> True
          | c # f \<Rightarrow> c = CHR ''.'' \<and> f \<noteq> [] \<and> list_all is_digit f))"

text \<open>\<open>s.split(sep)\<close> for a separator of one character: always at least one piece.\<close>

fun split_on :: "char \<Rightarrow> string \<Rightarrow> string list" where
  "split_on sep [] = [[]]"
| "split_on sep (c # cs) =
     (if c = sep then [] # split_on sep cs
      else (case split_on sep cs of [] \<Rightarrow> [[c]] | p # ps \<Rightarrow> (c # p) # ps))"

definition padEnd :: "nat \<Rightarrow> char \<Rightarrow> string \<Rightarrow> string" where
  "padEnd n c s = s @ replicate (n - length s) c"

text \<open>\<open>BigInt(s)\<close> on a string of decimal digits (the format test lets nothing else reach
  it): the digits read in base ten, most significant first.\<close>

definition BigInt :: "string \<Rightarrow> int" where
  "BigInt s = foldl (\<lambda>a c. 10 * a + int (digit_val c)) 0 s"

section \<open>Decimal normalizer: \<open>transformToCanonical\<close>\<close>

datatype TransformMode = Strict | Round | Truncate

text \<open>The three \<open>throw\<close> sites of \<open>transformToCanonical\<close>, in source order.\<close>

datatype transform_error = InvalidNumeric | PrecisionExceeded | Overflow

definition MAX_SAFE_INTEGER :: int where
  "MAX_SAFE_INTEGER = 2 ^ 53 - 1"

definition build :: "string \<Rightarrow> nat \<Rightarrow> string \<Rightarrow> int" where
  "build whole precision decDigits =
     (let padded = take precision (padEnd precision CHR ''0'' decDigits)
      in BigInt whole * 10 ^ precision + (if padded = [] then 0 else BigInt padded))"

definition transformToCanonical :: "string \<Rightarrow> nat \<Rightarrow> TransformMode \<Rightarrow> transform_error + int" where
  "transformToCanonical val precision mode =
     (let str0 = trim val in
      if \<not> numeric_format str0 then Inl InvalidNumeric
      else
        let isNegative = (take 1 str0 = ''-'');
            str = strip_sign str0;
            parts = split_on CHR ''.'' str;
            wholeRaw = (case parts of [] \<Rightarrow> [] | w # _ \<Rightarrow> w);
            decRaw = (case parts of _ # d # _ \<Rightarrow> d | _ \<Rightarrow> []);
            whole = (if wholeRaw = [] then ''0'' else wholeRaw);
            dec = decRaw;
            MAX' = MAX_SAFE_INTEGER;
            unsigned =
              (if length dec > precision then
                 (if mode = Strict then Inl PrecisionExceeded
                  else
                    let truncated = build whole precision (take precision dec) in
                    if mode = Truncate then Inr truncated
                    else
                      let nextDigit = digit_val (dec ! precision) in
                      Inr (if nextDigit \<ge> 5 then truncated + 1 else truncated))
               else Inr (build whole precision dec))
        in case unsigned of
             Inl e \<Rightarrow> Inl e
           | Inr r \<Rightarrow>
               let result = (if isNegative then - r else r) in
               if result > MAX' \<or> result < - MAX' then Inl Overflow
               else Inr result)"

subsection \<open>What the normalizer is specified to compute\<close>

text \<open>
  The specification's grammar \<open>[+-]?digits(.digits)?\<close>: a sign (none, plus or minus), a
  non-empty integer part, and a fraction that is either absent (the empty list here) or a
  dot followed by at least one digit.

  The specification's reading of a decimal: the digits in positional notation, the value
  \<open>integer part + fraction / 10^length\<close> as a rational, scaled by \<open>10^P\<close>; then the three
  modes, the sign and the safe-integer bound.
\<close>

definition decimal_grammar :: "string \<Rightarrow> string \<Rightarrow> string \<Rightarrow> bool" where
  "decimal_grammar sign whole fraction \<longleftrightarrow>
     sign \<in> {[], ''+'', ''-''} \<and> whole \<noteq> [] \<and> list_all is_digit whole \<and> list_all is_digit fraction"

definition decimal_text :: "string \<Rightarrow> string \<Rightarrow> string \<Rightarrow> string" where
  "decimal_text sign whole fraction = sign @ whole @ (if fraction = [] then [] else CHR ''.'' # fraction)"

definition positional :: "string \<Rightarrow> nat" where
  "positional ds = (\<Sum>i < length ds. digit_val (ds ! i) * 10 ^ (length ds - Suc i))"

definition decimal_magnitude :: "string \<Rightarrow> string \<Rightarrow> rat" where
  "decimal_magnitude whole fraction = of_nat (positional whole) + of_nat (positional fraction) / 10 ^ length fraction"

definition canonical_spec :: "bool \<Rightarrow> string \<Rightarrow> string \<Rightarrow> nat \<Rightarrow> TransformMode \<Rightarrow> transform_error + int" where
  "canonical_spec negative whole fraction P mode =
     (let scaled = decimal_magnitude whole fraction * 10 ^ P in
      if length fraction > P \<and> mode = Strict then Inl PrecisionExceeded
      else
        let magnitude = (if length fraction > P \<and> mode = Round then \<lfloor>scaled + 1 / 2\<rfloor> else \<lfloor>scaled\<rfloor>);
            signed = (if negative then - magnitude else magnitude)
        in if \<bar>signed\<bar> > 2 ^ 53 - 1 then Inl Overflow else Inr signed)"

section \<open>Values, numbers and objects\<close>

text \<open>
  A value of type \<open>unknown\<close> that came from JSON. A number \<open>n\<close> among the JSON values is an
  integer that is a double (every integer of magnitude up to \<open>2^53\<close> is one): the registry
  declares every numeric constraint as \<open>valueType: 'integer'\<close>, and amounts are integer minor
  units. A \<open>Record<string, unknown>\<close> is an association list in property order; a JavaScript
  object has no duplicate keys, so the key lists of well-formed records are distinct.
\<close>

datatype jsval =
    JNull
  | JBool bool
  | JNum int
  | JStr string
  | JArr "jsval list"
  | JObj "(string \<times> jsval) list"

type_synonym jsrecord = "(string \<times> jsval) list"

text \<open>\<open>typeof v === 'number'\<close>\<close>

definition is_number :: "jsval \<Rightarrow> bool" where
  "is_number v = (case v of JNum _ \<Rightarrow> True | _ \<Rightarrow> False)"

subsection \<open>Numbers\<close>

text \<open>
  The numbers that the arithmetic of the program computes are IEEE 754 doubles: a finite
  double is the rational \<open>Num x\<close>, and \<open>NaN\<close>, \<open>Infinity\<close> and \<open>-Infinity\<close> are values of their
  own. The two zeros are one value: the program never divides by a computed number and
  prints, compares and serializes both zeros alike.

  \<open>fl x\<close> is the double nearest to the rational \<open>x\<close>, ties to the even significand: 53
  significant bits, the exponent of the last bit no less than \<open>-1074\<close>, and \<open>Infinity\<close> from
  \<open>2^1024\<close> on. Every arithmetic operation returns \<open>fl\<close> of its exact result.
\<close>

datatype number = Num rat | NaN | Infinity | NegInfinity

definition pow2 :: "int \<Rightarrow> rat" where
  "pow2 e = (if 0 \<le> e then 2 ^ nat e else 1 / 2 ^ nat (- e))"

text \<open>\<open>\<lfloor>log\<^sub>2 x\<rfloor>\<close> for a positive rational, from the bit lengths of numerator and
  denominator.\<close>

definition floor_log2 :: "rat \<Rightarrow> int" where
  "floor_log2 x =
     (let (p, q) = quotient_of x;
          d = bitlen p - bitlen q
      in if pow2 d \<le> x then d else d - 1)"

definition round_half_even :: "rat \<Rightarrow> int" where
  "round_half_even y =
     (let f = \<lfloor>y\<rfloor>; r = y - of_int f
      in if r < 1 / 2 then f else if 1 / 2 < r then f + 1 else if even f then f else f + 1)"

definition fl_pos :: "rat \<Rightarrow> rat" where
  "fl_pos x =
     (let e = max (floor_log2 x - 52) (- 1074)
      in of_int (round_half_even (x / pow2 e)) * pow2 e)"

definition fl :: "rat \<Rightarrow> number" where
  "fl x =
     (if x = 0 then Num 0
      else let v = fl_pos \<bar>x\<bar> in
           if pow2 1024 \<le> v then (if 0 < x then Infinity else NegInfinity)
           else Num (if 0 < x then v else - v))"

text \<open>The operators \<open>*\<close> and \<open>/\<close> on numbers, \<open>Math.ceil\<close>, the comparison \<open><\<close>, strict
  equality \<open>===\<close> and truthiness.\<close>

definition js_sign :: "number \<Rightarrow> int" where
  "js_sign a =
     (case a of
        Num x \<Rightarrow> (if 0 < x then 1 else if x < 0 then - 1 else 0)
      | Infinity \<Rightarrow> 1
      | NegInfinity \<Rightarrow> - 1
      | NaN \<Rightarrow> 0)"

definition js_times :: "number \<Rightarrow> number \<Rightarrow> number" where
  "js_times a b =
     (case (a, b) of
        (Num x, Num y) \<Rightarrow> fl (x * y)
      | (NaN, _) \<Rightarrow> NaN
      | (_, NaN) \<Rightarrow> NaN
      | _ \<Rightarrow> (let s = js_sign a * js_sign b
              in if s = 0 then NaN else if 0 < s then Infinity else NegInfinity))"

definition js_divide :: "number \<Rightarrow> number \<Rightarrow> number" where
  "js_divide a b =
     (case (a, b) of
        (NaN, _) \<Rightarrow> NaN
      | (_, NaN) \<Rightarrow> NaN
      | (Num x, Num y) \<Rightarrow>
          if y = 0 then (if x = 0 then NaN else if 0 < x then Infinity else NegInfinity)
          else fl (x / y)
      | (Num x, _) \<Rightarrow> Num 0
      | (_, Num y) \<Rightarrow>
          (if 0 < js_sign a * (if y < 0 then - 1 else 1) then Infinity else NegInfinity)
      | _ \<Rightarrow> NaN)"

definition Math_ceil :: "number \<Rightarrow> number" where
  "Math_ceil a = (case a of Num x \<Rightarrow> Num (of_int \<lceil>x\<rceil>) | _ \<Rightarrow> a)"

definition js_less :: "number \<Rightarrow> number \<Rightarrow> bool" where
  "js_less a b =
     (case (a, b) of
        (NaN, _) \<Rightarrow> False
      | (_, NaN) \<Rightarrow> False
      | (Num x, Num y) \<Rightarrow> x < y
      | (NegInfinity, NegInfinity) \<Rightarrow> False
      | (NegInfinity, _) \<Rightarrow> True
      | (_, Infinity) \<Rightarrow> b \<noteq> a
      | _ \<Rightarrow> False)"

definition strict_equal :: "number \<Rightarrow> number \<Rightarrow> bool" where
  "strict_equal a b = (a = b \<and> a \<noteq> NaN)"

definition truthy_number :: "number \<Rightarrow> bool" where
  "truthy_number a = (a \<noteq> Num 0 \<and> a \<noteq> NaN)"

text \<open>
  Built-ins of the language that convert between values and numbers, as parameters:
  \<open>Number_of v\<close> is \<open>Number(v)\<close>, the conversion that the arithmetic operators apply to an
  operand that is not a number, and \<open>String_of a\<close> is the text a template literal gives for
  the number \<open>a\<close>.
\<close>

record Builtins =
  Number_of :: "jsval \<Rightarrow> number"
  String_of :: "number \<Rightarrow> string"

subsection \<open>Property access on plain objects\<close>

text \<open>
  Every record that the program receives is a plain object (an object literal, or the
  result of \<open>JSON.parse\<close>), whose prototype is \<open>Object.prototype\<close>. A read \<open>obj[k]\<close> gives the
  own property when there is one; otherwise, for the twelve property names of
  \<open>Object.prototype\<close>, it gives the inherited member (a function, or for \<open>__proto__\<close> the
  prototype object itself), which is truthy, is not \<open>undefined\<close>, is not a number or a
  string and has none of the properties the program reads from it; otherwise it gives
  \<open>undefined\<close>.
\<close>

definition Object_prototype_names :: "string list" where
  "Object_prototype_names =
     [''constructor'', ''__defineGetter__'', ''__defineSetter__'', ''hasOwnProperty'',
      ''__lookupGetter__'', ''__lookupSetter__'', ''isPrototypeOf'', ''propertyIsEnumerable'',
      ''toString'', ''valueOf'', ''__proto__'', ''toLocaleString'']"

datatype 'a property = Own 'a | Inherited | Undefined

definition js_get :: "(string \<rightharpoonup> 'a) \<Rightarrow> string \<Rightarrow> 'a property" where
  "js_get obj k =
     (case obj k of
        Some v \<Rightarrow> Own v
      | None \<Rightarrow> if k \<in> set Object_prototype_names then Inherited else Undefined)"

text \<open>
  The conversion to a number of what a read returned: \<open>undefined\<close> and an inherited member
  give \<open>NaN\<close>, \<open>null\<close> gives 0, a boolean 0 or 1, and a string, an array or an object what
  \<open>Number\<close> makes of it. Then truthiness.
\<close>

definition ToNumber :: "'a Builtins_scheme \<Rightarrow> jsval property \<Rightarrow> number" where
  "ToNumber b v =
     (case v of
        Own (JNum n) \<Rightarrow> Num (of_int n)
      | Own JNull \<Rightarrow> Num 0
      | Own (JBool t) \<Rightarrow> Num (if t then 1 else 0)
      | Own w \<Rightarrow> Number_of b w
      | _ \<Rightarrow> NaN)"

definition truthy :: "jsval property \<Rightarrow> bool" where
  "truthy v =
     (case v of
        Undefined \<Rightarrow> False
      | Inherited \<Rightarrow> True
      | Own JNull \<Rightarrow> False
      | Own (JBool t) \<Rightarrow> t
      | Own (JNum n) \<Rightarrow> n \<noteq> 0
      | Own (JStr s) \<Rightarrow> s \<noteq> []
      | Own _ \<Rightarrow> True)"

subsection \<open>Objects whose prototype can change\<close>

text \<open>
  The object that \<open>mergeConstraints\<close> builds is assigned to by keys that the credential
  chooses. An assignment \<open>obj[k] = v\<close> writes the own property \<open>k\<close>, replacing the value in
  place or appending the property, with one exception: \<open>obj['__proto__'] = v\<close>, on an object
  without an own property of that name whose prototype chain still ends in
  \<open>Object.prototype\<close>, calls the setter of \<open>Object.prototype\<close>. The setter creates no
  property; it replaces the prototype of \<open>obj\<close> when \<open>v\<close> is an object, an array or \<open>null\<close>,
  and does nothing for any other value. So such an object is its own properties and its
  prototype: \<open>Object.prototype\<close>, \<open>null\<close>, or a JSON value (an object or an array, itself
  with its original prototype).

  A read follows the chain: the own property, then the members of the prototype. An array
  has its elements under their indices and its \<open>length\<close>, then the methods of
  \<open>Array.prototype\<close> (the names of ECMAScript 2023). \<open>Own v\<close> is the value of the data
  property that the read found, on the object or on a prototype that is a JSON value.
\<close>

datatype jsproto = Object_prototype | Null_prototype | Value_prototype jsval

record jsobject =
  own_properties :: jsrecord
  prototype :: jsproto

definition plain_object :: "jsrecord \<Rightarrow> jsobject" where
  "plain_object r = \<lparr>own_properties = r, prototype = Object_prototype\<rparr>"

definition Array_prototype_names :: "string list" where
  "Array_prototype_names =
     [''at'', ''concat'', ''copyWithin'', ''entries'', ''every'', ''fill'', ''filter'', ''find'',
      ''findIndex'', ''findLast'', ''findLastIndex'', ''flat'', ''flatMap'', ''forEach'',
      ''includes'', ''indexOf'', ''join'', ''keys'', ''lastIndexOf'', ''map'', ''pop'', ''push'',
      ''reduce'', ''reduceRight'', ''reverse'', ''shift'', ''slice'', ''some'', ''sort'',
      ''splice'', ''toReversed'', ''toSorted'', ''toSpliced'', ''unshift'', ''values'', ''with'']"

text \<open>An array index as a property name: the decimal numeral without leading zeros.\<close>

definition array_index :: "string \<Rightarrow> nat option" where
  "array_index k =
     (if k \<noteq> [] \<and> list_all is_digit k \<and> (k = ''0'' \<or> hd k \<noteq> CHR ''0'')
      then Some (nat (BigInt k)) else None)"

definition array_get :: "jsval list \<Rightarrow> string \<Rightarrow> jsval property" where
  "array_get xs k =
     (if k = ''length'' then Own (JNum (int (length xs)))
      else case array_index k of
             Some i \<Rightarrow> if i < length xs then Own (xs ! i) else Undefined
           | None \<Rightarrow>
               if k \<in> set Array_prototype_names \<or> k \<in> set Object_prototype_names
               then Inherited else Undefined)"

fun prototype_get :: "jsproto \<Rightarrow> string \<Rightarrow> jsval property" where
  "prototype_get Object_prototype k = js_get Map.empty k"
| "prototype_get Null_prototype k = Undefined"
| "prototype_get (Value_prototype (JObj r)) k = js_get (map_of r) k"
| "prototype_get (Value_prototype (JArr xs)) k = array_get xs k"
| "prototype_get (Value_prototype v) k = Undefined"

definition get_property :: "jsobject \<Rightarrow> string \<Rightarrow> jsval property" where
  "get_property obj k =
     (case map_of (own_properties obj) k of
        Some v \<Rightarrow> Own v
      | None \<Rightarrow> prototype_get (prototype obj) k)"

text \<open>Whether the lookup of \<open>__proto__\<close> along the prototype chain arrives at the accessor
  of \<open>Object.prototype\<close>: not when the chain ends in \<open>null\<close>, and not when a prototype that
  came from JSON has an own property of that name.\<close>

fun reaches_proto_setter :: "jsproto \<Rightarrow> bool" where
  "reaches_proto_setter Object_prototype = True"
| "reaches_proto_setter Null_prototype = False"
| "reaches_proto_setter (Value_prototype (JObj r)) = (map_of r ''__proto__'' = None)"
| "reaches_proto_setter (Value_prototype (JArr xs)) = True"
| "reaches_proto_setter (Value_prototype v) = False"

definition set_property :: "string \<Rightarrow> jsval \<Rightarrow> jsobject \<Rightarrow> jsobject" where
  "set_property k v obj =
     (if k = ''__proto__'' \<and> map_of (own_properties obj) k = None
         \<and> reaches_proto_setter (prototype obj)
      then (case v of
              JNull \<Rightarrow> obj\<lparr>prototype := Null_prototype\<rparr>
            | JObj r \<Rightarrow> obj\<lparr>prototype := Value_prototype v\<rparr>
            | JArr xs \<Rightarrow> obj\<lparr>prototype := Value_prototype v\<rparr>
            | _ \<Rightarrow> obj)
      else obj\<lparr>own_properties := AList.update k v (own_properties obj)\<rparr>)"

section \<open>The constraint type registry\<close>

datatype ConstraintType = Limit | Term

datatype ConstraintValueType = IntegerValue | StringValue

record ConstraintTypeDefinition =
  ctype :: ConstraintType
  valueType :: ConstraintValueType

type_synonym registry = "string \<rightharpoonup> ConstraintTypeDefinition"

text \<open>\<open>CONSTRAINT_TYPES\<close> of the types module, version 1.2.0.\<close>

definition CONSTRAINT_TYPES :: registry where
  "CONSTRAINT_TYPES = map_of
     [(''core:rate:max_per_minute'', \<lparr>ctype = Limit, valueType = IntegerValue\<rparr>),
      (''core:rate:max_per_hour'', \<lparr>ctype = Limit, valueType = IntegerValue\<rparr>),
      (''core:rate:max_per_day'', \<lparr>ctype = Limit, valueType = IntegerValue\<rparr>),
      (''core:cost:max_per_action'', \<lparr>ctype = Limit, valueType = IntegerValue\<rparr>),
      (''core:cost:max_cumulative'', \<lparr>ctype = Limit, valueType = IntegerValue\<rparr>),
      (''core:pricing:per_call_cents'', \<lparr>ctype = Term, valueType = IntegerValue\<rparr>),
      (''core:pricing:per_minute_cents'', \<lparr>ctype = Term, valueType = IntegerValue\<rparr>),
      (''core:pricing:model'', \<lparr>ctype = Term, valueType = StringValue\<rparr>),
      (''core:pricing:currency'', \<lparr>ctype = Term, valueType = StringValue\<rparr>),
      (''core:pricing:free_tier_calls'', \<lparr>ctype = Term, valueType = IntegerValue\<rparr>),
      (''core:sla:uptime_basis_points'', \<lparr>ctype = Term, valueType = IntegerValue\<rparr>),
      (''core:sla:response_time_ms'', \<lparr>ctype = Term, valueType = IntegerValue\<rparr>),
      (''core:sla:p99_response_ms'', \<lparr>ctype = Term, valueType = IntegerValue\<rparr>),
      (''core:platform_fee:basis_points'', \<lparr>ctype = Term, valueType = IntegerValue\<rparr>)]"

text \<open>\<open>CONSTRAINT_TYPES\<close> of the types module, version 1.0.0.\<close>

definition CONSTRAINT_TYPES_v1_0 :: registry where
  "CONSTRAINT_TYPES_v1_0 = map_of
     [(''core:rate:max_per_hour'', \<lparr>ctype = Limit, valueType = IntegerValue\<rparr>),
      (''core:rate:max_per_day'', \<lparr>ctype = Limit, valueType = IntegerValue\<rparr>),
      (''core:rate:max_per_minute'', \<lparr>ctype = Limit, valueType = IntegerValue\<rparr>),
      (''core:cost:max'', \<lparr>ctype = Limit, valueType = IntegerValue\<rparr>),
      (''core:cost:currency'', \<lparr>ctype = Limit, valueType = StringValue\<rparr>),
      (''core:pricing:per_call_cents'', \<lparr>ctype = Term, valueType = IntegerValue\<rparr>),
      (''core:pricing:per_minute_cents'', \<lparr>ctype = Term, valueType = IntegerValue\<rparr>),
      (''core:pricing:model'', \<lparr>ctype = Term, valueType = StringValue\<rparr>),
      (''core:pricing:currency'', \<lparr>ctype = Term, valueType = StringValue\<rparr>),
      (''core:pricing:free_tier_calls'', \<lparr>ctype = Term, valueType = IntegerValue\<rparr>),
      (''core:sla:uptime_basis_points'', \<lparr>ctype = Term, valueType = IntegerValue\<rparr>),
      (''core:sla:response_time_ms'', \<lparr>ctype = Term, valueType = IntegerValue\<rparr>),
      (''core:sla:p99_response_ms'', \<lparr>ctype = Term, valueType = IntegerValue\<rparr>),
      (''core:platform_fee:basis_points'', \<lparr>ctype = Term, valueType = IntegerValue\<rparr>)]"

text \<open>\<open>constraintType?.type === 'limit'\<close> and \<open>constraintType?.type === 'term'\<close>\<close>

definition is_limit :: "ConstraintTypeDefinition option \<Rightarrow> bool" where
  "is_limit constraintType = (case constraintType of None \<Rightarrow> False | Some d \<Rightarrow> ctype d = Limit)"

definition is_term :: "ConstraintTypeDefinition option \<Rightarrow> bool" where
  "is_term constraintType = (case constraintType of None \<Rightarrow> False | Some d \<Rightarrow> ctype d = Term)"

section \<open>Constraint merge: \<open>mergeConstraints\<close>\<close>

text \<open>
  The function has the same text in both versions of the verification module, each reading
  the \<open>CONSTRAINT_TYPES\<close> table of its own types module; the table is the first argument
  here. \<open>merge_entries\<close> is the \<open>for (const [key, passportValue] of Object.entries(...))\<close>
  loop, with \<open>merged\<close> as the loop state; \<open>{ ...catalogConstraints }\<close> is a new plain object
  with the catalog's own properties. A key of the table is read as \<open>reg key\<close>: an inherited
  member of the table has no \<open>type\<close>, so it is neither a limit nor a term, as an absent
  key. The function has no \<open>throw\<close>, and on records none of its operations raises.
\<close>

fun merge_entries :: "registry \<Rightarrow> jsobject \<Rightarrow> jsrecord \<Rightarrow> jsobject" where
  "merge_entries reg merged [] = merged"
| "merge_entries reg merged ((key, passportValue) # rest) =
     (let constraintType = reg key in
      if is_limit constraintType \<and> is_number passportValue then
        (let catalogValue = get_property merged key in
         case catalogValue of
           Own (JNum c) \<Rightarrow>
             (case passportValue of
                JNum p \<Rightarrow> merge_entries reg (set_property key (JNum (min c p)) merged) rest
              | _ \<Rightarrow> merge_entries reg (set_property key passportValue merged) rest)
         | _ \<Rightarrow> merge_entries reg (set_property key passportValue merged) rest)
      else if is_term constraintType then merge_entries reg merged rest
      else merge_entries reg (set_property key passportValue merged) rest)"

definition mergeConstraints :: "registry \<Rightarrow> jsrecord \<Rightarrow> jsrecord \<Rightarrow> jsobject" where
  "mergeConstraints reg catalogConstraints passportConstraints =
     (let merged = plain_object catalogConstraints in merge_entries reg merged passportConstraints)"

section \<open>Commerce: costs, fees and consumption receipts\<close>

text \<open>
  The pricing and fee records are filled by unchecked casts (\<open>as number | undefined\<close>), so
  a field holds whatever the read of the constraint record returned. Fields declared
  \<open>number\<close> that the program computes or takes from its caller are numbers.
\<close>

record PricingConstraints =
  per_call_cents :: "jsval property"
  per_minute_cents :: "jsval property"
  subscription_cents :: "jsval property"
  model :: "jsval property"
  currency :: "jsval property"
  free_tier_calls :: "jsval property"

record PlatformFeeConstraints =
  basis_points :: "jsval property"
  recipient :: "jsval property"

record ConsumptionData =
  units :: number
  cost_cents :: number
  platform_fee_cents :: number
  timestamp :: string
  duration_ms :: "number option"

record ReceiptConstraints =
  pricing :: "PricingConstraints option"
  platform_fee :: "PlatformFeeConstraints option"

record Proof =
  kid :: string
  sig :: string

text \<open>The receipt without its proof (\<open>attestationPayload\<close>), and the receipt: the payload
  extended by the \<open>proof\<close> field (\<open>proof'\<close> here). Field names shared with the
  credential and the verification result carry the prefix \<open>att_\<close>, those of the issuance
  parameters the prefix \<open>ir_\<close>. \<open>attestation_type\<close> and \<open>proof.type\<close> are constants.\<close>

record AttestationPayload =
  attestation_id :: string
  att_gate_id :: string
  att_agent_id :: string
  att_passport_id :: string
  att_permission_key :: string
  catalog_version :: int
  catalog_content_hash :: "string option"
  request_nonce :: "string option"
  att_effective_constraints :: ReceiptConstraints
  consumption :: ConsumptionData

record ConsumptionAttestation = AttestationPayload +
  proof' :: Proof

text \<open>The two \<open>throw\<close> sites of \<open>computePlatformFee\<close>.\<close>

datatype fee_error = NegativeCost | NegativeBasisPoints

text \<open>
  The three cost functions. The basis points and the prices are operands of \<open><\<close>, \<open>*\<close> and
  \<open>/\<close>, which convert them to numbers; a number \<open>n\<close> passed for the basis points is
  \<open>Own (JNum n)\<close>. The product, the quotient and the ceiling are those of doubles.
\<close>

definition computePlatformFee ::
    "'a Builtins_scheme \<Rightarrow> number \<Rightarrow> jsval property \<Rightarrow> fee_error + number" where
  "computePlatformFee b serviceCostCents basisPoints =
     (if js_less serviceCostCents (Num 0) then Inl NegativeCost
      else if js_less (ToNumber b basisPoints) (Num 0) then Inl NegativeBasisPoints
      else Inr (Math_ceil (js_divide (js_times serviceCostCents (ToNumber b basisPoints))
                             (Num 10000))))"

text \<open>\<open>units\<close> has the default value 1.\<close>

definition computeCallCost ::
    "'a Builtins_scheme \<Rightarrow> PricingConstraints \<Rightarrow> number option \<Rightarrow> number" where
  "computeCallCost b p units_arg =
     (let units' = (case units_arg of None \<Rightarrow> Num 1 | Some u \<Rightarrow> u) in
      if per_call_cents p \<noteq> Undefined
      then js_times (ToNumber b (per_call_cents p)) units'
      else Num 0)"

definition computeTimeCost ::
    "'a Builtins_scheme \<Rightarrow> PricingConstraints \<Rightarrow> number \<Rightarrow> number" where
  "computeTimeCost b p durationMs =
     (if per_minute_cents p \<noteq> Undefined
      then (let minutes = Math_ceil (js_divide durationMs (Num 60000))
            in js_times (ToNumber b (per_minute_cents p)) minutes)
      else Num 0)"

definition extractPricingConstraints :: "jsobject \<Rightarrow> PricingConstraints" where
  "extractPricingConstraints constraints =
     \<lparr>per_call_cents = get_property constraints ''core:pricing:per_call_cents'',
      per_minute_cents = get_property constraints ''core:pricing:per_minute_cents'',
      subscription_cents = get_property constraints ''core:pricing:subscription_cents'',
      model = get_property constraints ''core:pricing:model'',
      currency = get_property constraints ''core:pricing:currency'',
      free_tier_calls = get_property constraints ''core:pricing:free_tier_calls''\<rparr>"

definition extractPlatformFeeConstraints :: "jsobject \<Rightarrow> PlatformFeeConstraints" where
  "extractPlatformFeeConstraints constraints =
     \<lparr>basis_points = get_property constraints ''core:platform_fee:basis_points'',
      recipient = get_property constraints ''core:platform_fee:recipient''\<rparr>"

text \<open>Truthiness of an optional string.\<close>

definition truthy_str :: "string option \<Rightarrow> bool" where
  "truthy_str v = (case v of None \<Rightarrow> False | Some s \<Rightarrow> s \<noteq> [])"

text \<open>
  What the receipt functions take from their environment, besides the conversions: the
  clock reading \<open>new Date().toISOString()\<close>, the fresh identifier built from \<open>Date.now()\<close>
  and \<open>Math.random()\<close>, and \<open>JSON.stringify\<close> on a payload object.
\<close>

record ReceiptEnv = Builtins +
  now_iso :: string
  fresh_attestation_id :: string
  JSON_stringify :: "AttestationPayload \<Rightarrow> string"

text \<open>The constraint record of an issuance is the effective constraints of a verification
  result, an object that \<open>mergeConstraints\<close> built.\<close>

record IssueReceiptParams =
  ir_gate_id :: string
  ir_agent_id :: string
  ir_passport_id :: string
  ir_permission_key :: string
  ir_catalog_version :: int
  ir_catalog_content_hash :: "string option"
  ir_effective_constraints :: jsobject
  ir_request_nonce :: "string option"
  ir_units :: "number option"
  ir_duration_ms :: "number option"
  ir_sign :: "string \<Rightarrow> string"
  ir_signing_key_id :: string

definition issueConsumptionAttestation ::
    "ReceiptEnv \<Rightarrow> IssueReceiptParams \<Rightarrow> fee_error + ConsumptionAttestation" where
  "issueConsumptionAttestation env params =
     (let units' = (case ir_units params of None \<Rightarrow> Num 1 | Some u \<Rightarrow> u);
          pricing' = extractPricingConstraints (ir_effective_constraints params);
          platformFee = extractPlatformFeeConstraints (ir_effective_constraints params);
          cost = (if model pricing' = Own (JStr ''per_minute'') \<and> ir_duration_ms params \<noteq> None
                  then computeTimeCost env pricing' (the (ir_duration_ms params))
                  else computeCallCost env pricing' (Some units'));
          fee = (if truthy (basis_points platformFee)
                 then computePlatformFee env cost (basis_points platformFee)
                 else Inr (Num 0))
      in case fee of
           Inl e \<Rightarrow> Inl e
         | Inr fee_cents \<Rightarrow>
             let consumption' =
                   \<lparr>units = units', cost_cents = cost, platform_fee_cents = fee_cents,
                    timestamp = now_iso env, duration_ms = ir_duration_ms params\<rparr>;
                 attestationPayload =
                   \<lparr>attestation_id = fresh_attestation_id env,
                    att_gate_id = ir_gate_id params,
                    att_agent_id = ir_agent_id params,
                    att_passport_id = ir_passport_id params,
                    att_permission_key = ir_permission_key params,
                    catalog_version = ir_catalog_version params,
                    catalog_content_hash =
                      (if truthy_str (ir_catalog_content_hash params)
                       then ir_catalog_content_hash params else None),
                    request_nonce =
                      (if truthy_str (ir_request_nonce params)
                       then ir_request_nonce params else None),
                    att_effective_constraints =
                      \<lparr>pricing = Some pricing', platform_fee = Some platformFee\<rparr>,
                    consumption = consumption'\<rparr>;
                 canonicalJson = JSON_stringify env attestationPayload;
                 signature = ir_sign params canonicalJson
             in Inr (AttestationPayload.extend attestationPayload
                       \<lparr>proof' = \<lparr>kid = ir_signing_key_id params, sig = signature\<rparr>\<rparr>))"

text \<open>The verdicts: the two mismatch errors carry the expected and the received number
  that the message prints.\<close>

datatype receipt_error =
    NonceMismatch
  | InvalidSignature
  | CostMismatch number number
  | PlatformFeeMismatch number number

record ReceiptVerdict =
  valid :: bool
  error :: "receipt_error option"

record VerifyReceiptParams =
  attestation :: ConsumptionAttestation
  expected_nonce :: "string option"
  gate_public_key :: string
  verify :: "string \<Rightarrow> string \<Rightarrow> string \<Rightarrow> bool"

definition empty_pricing :: PricingConstraints where
  "empty_pricing = \<lparr>per_call_cents = Undefined, per_minute_cents = Undefined,
     subscription_cents = Undefined, model = Undefined, currency = Undefined,
     free_tier_calls = Undefined\<rparr>"

definition empty_platform_fee :: PlatformFeeConstraints where
  "empty_platform_fee = \<lparr>basis_points = Undefined, recipient = Undefined\<rparr>"

definition verifyConsumptionAttestation ::
    "ReceiptEnv \<Rightarrow> VerifyReceiptParams \<Rightarrow> fee_error + ReceiptVerdict" where
  "verifyConsumptionAttestation env params =
     (let att = attestation params in
      if truthy_str (expected_nonce params) \<and> request_nonce att \<noteq> expected_nonce params
      then Inr \<lparr>valid = False, error = Some NonceMismatch\<rparr>
      else
        let payloadWithoutProof = AttestationPayload.truncate att;
            canonicalJson = JSON_stringify env payloadWithoutProof;
            signatureValid = verify params canonicalJson (sig (proof' att)) (gate_public_key params)
        in if \<not> signatureValid then Inr \<lparr>valid = False, error = Some InvalidSignature\<rparr>
           else
             let pricing' = (case pricing (att_effective_constraints att) of
                               Some p \<Rightarrow> p | None \<Rightarrow> empty_pricing);
                 platformFee = (case platform_fee (att_effective_constraints att) of
                                  Some f \<Rightarrow> f | None \<Rightarrow> empty_platform_fee);
                 expectedCost =
                   (if model pricing' = Own (JStr ''per_minute'')
                       \<and> (case duration_ms (consumption att) of
                             None \<Rightarrow> False | Some d \<Rightarrow> truthy_number d)
                    then computeTimeCost env pricing' (the (duration_ms (consumption att)))
                    else computeCallCost env pricing' (Some (units (consumption att))))
             in if \<not> strict_equal (cost_cents (consumption att)) expectedCost
                then Inr \<lparr>valid = False,
                          error = Some (CostMismatch expectedCost (cost_cents (consumption att)))\<rparr>
                else
                  let expectedFee =
                        (if truthy (basis_points platformFee)
                         then computePlatformFee env expectedCost (basis_points platformFee)
                         else Inr (Num 0))
                  in case expectedFee of
                       Inl e \<Rightarrow> Inl e
                     | Inr fee \<Rightarrow>
                         if \<not> strict_equal (platform_fee_cents (consumption att)) fee
                         then Inr \<lparr>valid = False,
                                   error = Some (PlatformFeeMismatch fee
                                                   (platform_fee_cents (consumption att)))\<rparr>
                         else Inr \<lparr>valid = True, error = None\<rparr>)"

section \<open>Rate limiter: \<open>InMemoryRateLimiter\<close>\<close>

text \<open>The two private maps of the class are the state; each method takes the state and
  the reading of \<open>Date.now()\<close> it makes, and the mutating ones return the new state.\<close>

record RateLimitBucket =
  count :: int
  resetAt :: int

record RateLimit =
  max' :: int
  windowMs :: int

record InMemoryRateLimiter =
  buckets :: "string \<rightharpoonup> RateLimitBucket"
  limits :: "string \<rightharpoonup> RateLimit"

definition setLimit :: "InMemoryRateLimiter \<Rightarrow> string \<Rightarrow> int \<Rightarrow> int \<Rightarrow> InMemoryRateLimiter" where
  "setLimit rl action m w = rl\<lparr>limits := (limits rl)(action \<mapsto> \<lparr>max' = m, windowMs = w\<rparr>)\<rparr>"

definition getBucketKey :: "string \<Rightarrow> string option \<Rightarrow> string" where
  "getBucketKey action passportId =
     (case passportId of
        None \<Rightarrow> action
      | Some p \<Rightarrow> if p \<noteq> [] then action @ '':'' @ p else action)"

definition check :: "InMemoryRateLimiter \<Rightarrow> int \<Rightarrow> string \<Rightarrow> string option \<Rightarrow> bool" where
  "check rl now action passportId =
     (case limits rl action of
        None \<Rightarrow> True
      | Some limit \<Rightarrow>
          let key = getBucketKey action passportId;
              bucket = buckets rl key
          in case bucket of
               None \<Rightarrow> True
             | Some b \<Rightarrow> if resetAt b \<le> now then True else count b < max' limit)"

definition increment :: "InMemoryRateLimiter \<Rightarrow> int \<Rightarrow> string \<Rightarrow> string option \<Rightarrow> InMemoryRateLimiter" where
  "increment rl now action passportId =
     (case limits rl action of
        None \<Rightarrow> rl
      | Some limit \<Rightarrow>
          let key = getBucketKey action passportId;
              fresh = \<lparr>count = 0, resetAt = now + windowMs limit\<rparr>;
              bucket = (case buckets rl key of
                          None \<Rightarrow> fresh
                        | Some b \<Rightarrow> if resetAt b \<le> now then fresh else b)
          in rl\<lparr>buckets := (buckets rl)(key \<mapsto> bucket\<lparr>count := count bucket + 1\<rparr>)\<rparr>)"

definition reset :: "InMemoryRateLimiter \<Rightarrow> string \<Rightarrow> string option \<Rightarrow> InMemoryRateLimiter" where
  "reset rl action passportId =
     (let key = getBucketKey action passportId in rl\<lparr>buckets := (buckets rl)(key := None)\<rparr>)"

section \<open>Credentials, catalog and verification results\<close>

record PassportPermission =
  pp_permission_key :: string
  pp_constraints :: jsrecord

record Passport =
  passport_id :: string
  issuer_id :: string
  agent_id :: string
  gate_id :: string
  permissions :: "PassportPermission list"
  constraints :: jsrecord
  signature :: string
  expires_at :: string
  issued_at :: string
  catalog_version_pin :: "(string \<rightharpoonup> int) option"
  claimsByKey :: "string \<rightharpoonup> PassportPermission"

datatype RiskLevel = low | medium | high | critical

record CatalogPermission =
  cp_permission_key :: string
  display_name :: string
  description :: "string option"
  risk_level :: RiskLevel
  cp_constraints :: jsrecord
  default_template :: "string option"
  required_constraints :: "string list option"

record CatalogVersion =
  version :: int
  permissionsByKey :: "string \<rightharpoonup> CatalogPermission"
  published_at :: string

record CachedCatalog =
  cat_gate_id :: string
  current :: CatalogVersion
  versions :: "int \<rightharpoonup> CatalogVersion"
  min_compatible_version :: int
  cached_at :: int
  cat_permissionsByKey :: "string \<rightharpoonup> CatalogPermission"

text \<open>The members of the protocol SDK's \<open>DenyReason\<close> enumeration that the verification
  module and its tests name.\<close>

datatype DenyReason =
    PASSPORT_MISSING
  | ISSUER_NOT_ALLOWED
  | INVALID_SIGNATURE
  | PASSPORT_EXPIRED
  | PASSPORT_REVOKED
  | CATALOG_VERSION_DEPRECATED
  | PERMISSION_DENIED
  | CONSTRAINT_VIOLATED
  | APPROVAL_REQUIRED
  | RATE_LIMITED
  | ANTI_DOWNGRADE
  | CATALOG_PIN_MISMATCH
  | SESSION_INVALID
  | PARENT_INVALID
  | CHAIN_TOO_DEEP

datatype ConstraintDecision = PERMIT | SUSPEND | BLOCK

datatype WireDecision = Permit | Deny

record VerifyDenial =
  code :: DenyReason
  message :: string
  upgrade_template :: "string option"

record VerifyResult =
  allowed :: bool
  decision :: WireDecision
  constraint_decision :: "ConstraintDecision option"
  reason_codes :: "string list option"
  obligations :: "string list option"
  denial :: "VerifyDenial option"
  effective_constraints :: "jsobject option"
  confident :: bool

text \<open>Version 1.0.0 of the types module: \<open>DenialCode\<close> is a union of string literals and the
  result has four fields.\<close>

record VerifyDenial_v1_0 =
  code_v1_0 :: string
  message_v1_0 :: string
  upgrade_template_v1_0 :: "string option"

record VerifyResult_v1_0 =
  allowed_v1_0 :: bool
  denial_v1_0 :: "VerifyDenial_v1_0 option"
  effective_constraints_v1_0 :: "jsobject option"
  confident_v1_0 :: bool

section \<open>What the verification module takes from outside the repository\<close>

datatype js_error = RangeError | TypeError | SyntaxError | Error string

type_synonym bytes = "8 word list"

text \<open>
  Further built-ins of the language and the Ed25519 library, as parameters:
  \<^item> \<open>Date_parse s\<close> is the time value of \<open>new Date(s)\<close> in milliseconds, \<open>None\<close> for an
    invalid date (whose time value is \<open>NaN\<close>);
  \<^item> \<open>canonical_message p\<close> is \<open>new TextEncoder().encode(JSON.stringify(signedPayload, ...))\<close>
    for the signed fields of the credential \<open>p\<close>, or the exception it throws;
  \<^item> \<open>ed_verify signature message publicKey\<close> is \<open>ed.verify\<close>, or the exception it throws.
\<close>

record Platform = Builtins +
  Date_parse :: "string \<Rightarrow> int option"
  canonical_message :: "Passport \<Rightarrow> js_error + bytes"
  ed_verify :: "bytes \<Rightarrow> bytes \<Rightarrow> bytes \<Rightarrow> js_error + bool"

text \<open>
  The protocol SDK (package \<open>uniplex\<close>), as parameters. Of its types only the fields that
  the verification module reads or writes are kept. \<open>'l\<close> is the state of an anonymous
  rate limiter; \<open>evaluateAnonymousAccess\<close> may change it, and both evaluators may read
  the clock, whose reading is their last argument.
\<close>

record AnonymousAccessPolicy =
  enabled :: bool
  allowed_actions :: "string list"
  read_only :: "bool option"
  rate_limit_per_minute :: "int option"
  rate_limit_per_hour :: "int option"
  upgrade_message :: "string option"

record AnonymousDecision =
  anon_allowed :: bool

record AnonymousAccessArgs =
  aa_action :: string
  aa_policy :: AnonymousAccessPolicy
  aa_sourceId :: string

record ConstraintEvaluation =
  ev_decision :: ConstraintDecision
  reason :: "string option"

record CELResult =
  cel_decision :: ConstraintDecision
  evaluations :: "ConstraintEvaluation list"
  cel_reason_codes :: "string list option"
  cel_obligations :: "string list"

record CELArgs =
  cel_constraints :: jsobject
  cel_action :: string
  costCents :: "int option"
  metadata :: jsrecord

record 'l ProtocolSDK =
  evaluateConstraints :: "CELArgs \<Rightarrow> int \<Rightarrow> CELResult"
  evaluateAnonymousAccess :: "AnonymousAccessArgs \<Rightarrow> 'l \<Rightarrow> int \<Rightarrow> AnonymousDecision option \<times> 'l"
  MemoryAnonymousRateLimiter :: "int \<Rightarrow> int \<Rightarrow> 'l"

definition REQUIRE_APPROVAL :: string where
  "REQUIRE_APPROVAL = ''require_approval''"

section \<open>Signature verification\<close>

definition is_hex_digit :: "char \<Rightarrow> bool" where
  "is_hex_digit c \<longleftrightarrow> c \<in> set ''0123456789abcdefABCDEF''"

definition hex_digit_val :: "char \<Rightarrow> int" where
  "hex_digit_val c =
     (let n = (of_char c :: nat) in
      if n \<le> 57 then int n - 48 else if n \<le> 70 then int n - 55 else int n - 87)"

text \<open>\<open>parseInt(s, 16)\<close>: leading white space is skipped, a sign is read, a prefix \<open>0x\<close> or
  \<open>0X\<close> is dropped, and the longest run of hexadecimal digits is the number; \<open>None\<close> is
  \<open>NaN\<close>, the result when that run is empty.\<close>

definition parseInt16 :: "string \<Rightarrow> int option" where
  "parseInt16 s =
     (let t = dropWhile is_space s;
          negative = (take 1 t = ''-'');
          u = strip_sign t;
          v = (if take 2 u = ''0x'' \<or> take 2 u = ''0X'' then drop 2 u else u);
          ds = takeWhile is_hex_digit v
      in if ds = [] then None
         else Some ((if negative then - 1 else 1) * foldl (\<lambda>a c. 16 * a + hex_digit_val c) 0 ds))"

text \<open>Storing into a \<open>Uint8Array\<close>: \<open>NaN\<close> becomes 0, a number is taken modulo 256.\<close>

definition ToUint8 :: "int option \<Rightarrow> 8 word" where
  "ToUint8 v = (case v of None \<Rightarrow> 0 | Some n \<Rightarrow> word_of_int n)"

text \<open>
  \<open>new Uint8Array(cleanHex.length / 2)\<close> has the integer part of the quotient as its length,
  so the last character of a text of odd length is not read. The function is applied to
  strings; on any other value its first step, the call of \<open>hex.startsWith\<close>, throws a
  \<open>TypeError\<close>.
\<close>

definition hexToBytes :: "string \<Rightarrow> bytes" where
  "hexToBytes hex =
     (let cleanHex = (if take 2 hex = ''0x'' then drop 2 hex else hex)
      in map (\<lambda>i. ToUint8 (parseInt16 (take 2 (drop (i * 2) cleanHex))))
           [0 ..< length cleanHex div 2])"

text \<open>The body of the \<open>try\<close> block of \<open>verifySignatureSync\<close>, then the function: the \<open>catch\<close>
  clause turns every exception of the body into the result \<open>false\<close>. The key is what the
  caller read from the issuer-key record: an inherited member is not a string.\<close>

definition verifySignatureSync_try ::
    "Platform \<Rightarrow> Passport \<Rightarrow> string property \<Rightarrow> js_error + bool" where
  "verifySignatureSync_try plat passport issuerPublicKey =
     (case canonical_message plat passport of
        Inl e \<Rightarrow> Inl e
      | Inr msg \<Rightarrow>
          (let signature' = hexToBytes (signature passport)
           in case (case issuerPublicKey of
                      Own k \<Rightarrow> Inr (hexToBytes k)
                    | _ \<Rightarrow> Inl TypeError) of
                Inl e \<Rightarrow> Inl e
              | Inr publicKey \<Rightarrow> ed_verify plat signature' msg publicKey))"

definition try_catch :: "js_error + 'a \<Rightarrow> (js_error \<Rightarrow> js_error + 'a) \<Rightarrow> js_error + 'a" where
  "try_catch body handler = (case body of Inl e \<Rightarrow> handler e | Inr v \<Rightarrow> Inr v)"

definition verifySignatureSync :: "Platform \<Rightarrow> Passport \<Rightarrow> string property \<Rightarrow> js_error + bool" where
  "verifySignatureSync plat passport issuerPublicKey =
     try_catch (verifySignatureSync_try plat passport issuerPublicKey) (\<lambda>error. Inr False)"

section \<open>Constraint validation and catalog version resolution\<close>

record ConstraintValidationResult =
  cv_valid :: bool
  cv_message :: "string option"

text \<open>The loop of \<open>validateConstraints\<close>; the table \<open>CONSTRAINT_TYPES\<close> is an argument as in
  \<open>mergeConstraints\<close>. The third parameter of the source, \<open>catalogConstraints\<close>, is not read.
  \<open>contextNum\<close> is the context value when it is a number and \<open>Number\<close> of it otherwise.\<close>

fun validate_entries :: "registry \<Rightarrow> Platform \<Rightarrow> jsrecord \<Rightarrow> jsrecord \<Rightarrow> ConstraintValidationResult" where
  "validate_entries reg plat context' [] = \<lparr>cv_valid = True, cv_message = None\<rparr>"
| "validate_entries reg plat context' ((key, passportValue) # rest) =
     (case js_get (map_of context') key of
        Undefined \<Rightarrow> validate_entries reg plat context' rest
      | contextValue \<Rightarrow>
          let constraintType = reg key in
          if is_limit constraintType \<and> is_number passportValue then
            (let contextNum = ToNumber plat contextValue;
                 limit = ToNumber plat (Own passportValue)
             in if contextNum = NaN
                then \<lparr>cv_valid = False,
                      cv_message = Some (''Invalid context value for '' @ key)\<rparr>
                else if js_less limit contextNum
                then \<lparr>cv_valid = False,
                      cv_message = Some (''Constraint '' @ key @ '' exceeded: ''
                        @ String_of plat contextNum @ '' > '' @ String_of plat limit)\<rparr>
                else validate_entries reg plat context' rest)
          else validate_entries reg plat context' rest)"

definition validateConstraints ::
    "registry \<Rightarrow> Platform \<Rightarrow> jsrecord \<Rightarrow> jsrecord \<Rightarrow> jsrecord option \<Rightarrow> ConstraintValidationResult" where
  "validateConstraints reg plat passportConstraints context' catalogConstraints =
     validate_entries reg plat context' passportConstraints"

datatype ResolvedCatalog = Resolved CatalogVersion | Deprecated

text \<open>A pin read from an inherited member is not \<open>undefined\<close>, compares false with every
  number (it converts to \<open>NaN\<close>) and names no retained version: the current one stands.\<close>

definition resolveCatalogVersion :: "CachedCatalog \<Rightarrow> Passport option \<Rightarrow> ResolvedCatalog" where
  "resolveCatalogVersion catalog passport =
     (case passport of
        None \<Rightarrow> Resolved (current catalog)
      | Some p \<Rightarrow>
          (case catalog_version_pin p of
             None \<Rightarrow> Resolved (current catalog)
           | Some pins \<Rightarrow>
               (case js_get pins (cat_gate_id catalog) of
                  Undefined \<Rightarrow> Resolved (current catalog)
                | Inherited \<Rightarrow> Resolved (current catalog)
                | Own pin \<Rightarrow>
                    if pin < min_compatible_version catalog then Deprecated
                    else (case versions catalog pin of
                            Some v \<Rightarrow> Resolved v
                          | None \<Rightarrow> Resolved (current catalog)))))"

section \<open>The hot path: \<open>verifyLocally\<close>\<close>

text \<open>
  The parameters of version 1.0.0, and those of version 1.2.0, which adds the anonymous
  access policy and the source identifier. The two rate limiters are objects that a call
  mutates, so they are the state that \<open>verifyLocally\<close> takes and returns. An absent
  \<open>skipSignatureVerification\<close> is \<open>False\<close>.
\<close>

record VerifyLocallyParams_v1_0 =
  passport :: "Passport option"
  catalog :: CachedCatalog
  revocationList :: "string set"
  issuerKeys :: "string \<rightharpoonup> string"
  action :: string
  context' :: jsrecord
  skipSignatureVerification :: bool

record VerifyLocallyParams = VerifyLocallyParams_v1_0 +
  anonymousPolicy :: "AnonymousAccessPolicy option"
  sourceId :: "string option"

record 'l GateState =
  rateLimiter :: InMemoryRateLimiter
  anonymousRateLimiter :: "'l option"

text \<open>The clock readings of one call, in the order the code takes them: inside
  \<open>evaluateAnonymousAccess\<close>, \<open>new Date()\<close> of the expiry check, inside
  \<open>evaluateConstraints\<close>, \<open>Date.now()\<close> in \<open>check\<close> and \<open>Date.now()\<close> in \<open>increment\<close>.\<close>

record Clock =
  t_anonymous :: int
  t_expiry :: int
  t_cel :: int
  t_check :: int
  t_increment :: int

record DenyExtras =
  x_upgrade_template :: "string option"
  x_constraint_decision :: "ConstraintDecision option"
  x_reason_codes :: "string list option"
  x_obligations :: "string list option"

definition deny :: "DenyReason \<Rightarrow> string \<Rightarrow> DenyExtras option \<Rightarrow> VerifyResult" where
  "deny c m extras =
     \<lparr>allowed = False,
      decision = Deny,
      constraint_decision = (case extras of None \<Rightarrow> None | Some x \<Rightarrow> x_constraint_decision x),
      reason_codes = (case extras of None \<Rightarrow> None | Some x \<Rightarrow> x_reason_codes x),
      obligations = (case extras of None \<Rightarrow> None | Some x \<Rightarrow> x_obligations x),
      denial = Some \<lparr>code = c, message = m,
                     upgrade_template = (case extras of None \<Rightarrow> None | Some x \<Rightarrow> x_upgrade_template x)\<rparr>,
      effective_constraints = None,
      confident = True\<rparr>"

text \<open>The extras \<open>{ constraint_decision: 'BLOCK' }\<close>.\<close>

definition block_only :: "DenyExtras option" where
  "block_only = Some \<lparr>x_upgrade_template = None, x_constraint_decision = Some BLOCK,
                       x_reason_codes = None, x_obligations = None\<rparr>"

text \<open>\<open>new Date(passport.expires_at) < new Date()\<close>: a comparison with an invalid date is false.\<close>

definition date_before :: "Platform \<Rightarrow> string \<Rightarrow> int \<Rightarrow> bool" where
  "date_before plat s now = (case Date_parse plat s of None \<Rightarrow> False | Some t \<Rightarrow> t < now)"

text \<open>
  \<open>catalogEntry.constraints\<close>, \<open>catalogEntry.default_template\<close> and
  \<open>passportPermission.constraints\<close>, where the entry was read from a record by the action
  name: an inherited member has no such property, so the value is \<open>undefined\<close>.
\<close>

definition catalog_constraints_of :: "CatalogPermission property \<Rightarrow> jsrecord option" where
  "catalog_constraints_of catalogEntry =
     (case catalogEntry of Own e \<Rightarrow> Some (cp_constraints e) | _ \<Rightarrow> None)"

definition default_template_of :: "CatalogPermission property \<Rightarrow> string option" where
  "default_template_of catalogEntry =
     (case catalogEntry of Own e \<Rightarrow> default_template e | _ \<Rightarrow> None)"

definition passport_constraints_of :: "PassportPermission property \<Rightarrow> jsrecord option" where
  "passport_constraints_of passportPermission =
     (case passportPermission of Own c \<Rightarrow> Some (pp_constraints c) | _ \<Rightarrow> None)"

text \<open>
  The two constraint functions as \<open>verifyLocally\<close> calls them, on arguments that may be
  \<open>undefined\<close>: \<open>Object.entries(undefined)\<close> throws a \<open>TypeError\<close>, and the spread
  \<open>{ ...undefined }\<close> is the empty object.
\<close>

definition mergeConstraints_call ::
    "registry \<Rightarrow> jsrecord option \<Rightarrow> jsrecord option \<Rightarrow> js_error + jsobject" where
  "mergeConstraints_call reg catalogConstraints passportConstraints =
     (case passportConstraints of
        None \<Rightarrow> Inl TypeError
      | Some pc \<Rightarrow>
          Inr (mergeConstraints reg (case catalogConstraints of None \<Rightarrow> [] | Some cc \<Rightarrow> cc) pc))"

definition validateConstraints_call ::
    "registry \<Rightarrow> Platform \<Rightarrow> jsrecord option \<Rightarrow> jsrecord \<Rightarrow> jsrecord option
       \<Rightarrow> js_error + ConstraintValidationResult" where
  "validateConstraints_call reg plat passportConstraints ctx catalogConstraints =
     (case passportConstraints of
        None \<Rightarrow> Inl TypeError
      | Some pc \<Rightarrow> Inr (validateConstraints reg plat pc ctx catalogConstraints))"

text \<open>\<open>typeof v === 'number' ? v : undefined\<close>\<close>

definition number_or_undefined :: "jsval property \<Rightarrow> int option" where
  "number_or_undefined v = (case v of Own (JNum n) \<Rightarrow> Some n | _ \<Rightarrow> None)"

text \<open>\<open>!issuerKey\<close>: the key is \<open>undefined\<close> or the empty string.\<close>

definition falsy_key :: "string property \<Rightarrow> bool" where
  "falsy_key issuerKey = (case issuerKey of Undefined \<Rightarrow> True | Own k \<Rightarrow> k = [] | Inherited \<Rightarrow> False)"

definition verifyLocally ::
    "Platform \<Rightarrow> 'l ProtocolSDK \<Rightarrow> Clock \<Rightarrow> 'l GateState \<Rightarrow> VerifyLocallyParams
       \<Rightarrow> js_error + (VerifyResult \<times> 'l GateState)" where
  "verifyLocally plat sdk clock st params =
     (case passport params of
        None \<Rightarrow>
          (if (case anonymousPolicy params of None \<Rightarrow> False | Some policy \<Rightarrow> enabled policy) then
             (let policy = the (anonymousPolicy params);
                  limiter = (case anonymousRateLimiter st of
                               Some l \<Rightarrow> l
                             | None \<Rightarrow>
                                 MemoryAnonymousRateLimiter sdk
                                   (case rate_limit_per_minute policy of Some n \<Rightarrow> n | None \<Rightarrow> 5)
                                   (case rate_limit_per_hour policy of Some n \<Rightarrow> n | None \<Rightarrow> 50));
                  ran = evaluateAnonymousAccess sdk
                          \<lparr>aa_action = action params, aa_policy = policy,
                           aa_sourceId = (case sourceId params of Some s \<Rightarrow> s | None \<Rightarrow> ''unknown'')\<rparr>
                          limiter (t_anonymous clock);
                  anonResult = fst ran;
                  st' = st\<lparr>anonymousRateLimiter :=
                              (case anonymousRateLimiter st of Some l \<Rightarrow> Some (snd ran) | None \<Rightarrow> None)\<rparr>
              in if (case anonResult of None \<Rightarrow> False | Some d \<Rightarrow> anon_allowed d) then
                   Inr (\<lparr>allowed = True, decision = Permit, constraint_decision = None,
                         reason_codes = None, obligations = None, denial = None,
                         effective_constraints = None, confident = True\<rparr>, st')
                 else
                   (let upgradeMsg = (case upgrade_message policy of
                                        Some m \<Rightarrow> m
                                      | None \<Rightarrow> ''Get a passport for full access and higher rate limits'')
                    in Inr (deny PASSPORT_MISSING upgradeMsg None, st')))
           else Inr (deny PASSPORT_MISSING ''No passport in session'' None, st))
      | Some p \<Rightarrow>
          (let issuerKey = js_get (issuerKeys params) (issuer_id p) in
           if falsy_key issuerKey then
             Inr (deny ISSUER_NOT_ALLOWED (''Unknown issuer: '' @ issuer_id p) block_only, st)
           else
             case (if skipSignatureVerification params then Inr True
                   else verifySignatureSync plat p issuerKey) of
               Inl e \<Rightarrow> Inl e
             | Inr signature_ok \<Rightarrow>
                 if \<not> signature_ok then
                   Inr (deny INVALID_SIGNATURE ''Passport signature invalid'' block_only, st)
                 else if date_before plat (expires_at p) (t_expiry clock) then
                   Inr (deny PASSPORT_EXPIRED ''Passport has expired'' block_only, st)
                 else if passport_id p \<in> revocationList params then
                   Inr (deny PASSPORT_REVOKED ''Passport has been revoked'' block_only, st)
                 else
                   case resolveCatalogVersion (catalog params) (Some p) of
                     Deprecated \<Rightarrow>
                       Inr (deny CATALOG_VERSION_DEPRECATED
                              ''Passport pins to deprecated catalog version'' block_only, st)
                   | Resolved effectiveCatalog \<Rightarrow>
                       (let catalogEntry = js_get (permissionsByKey effectiveCatalog) (action params) in
                        if catalogEntry = Undefined then
                          Inr (deny PERMISSION_DENIED (action params @ '' not in gate catalog'')
                                 block_only, st)
                        else
                          let passportPermission = js_get (claimsByKey p) (action params) in
                          if passportPermission = Undefined then
                            Inr (deny PERMISSION_DENIED
                                   (''Passport lacks '' @ action params @ '' permission'')
                                   (Some \<lparr>x_upgrade_template = default_template_of catalogEntry,
                                           x_constraint_decision = Some BLOCK,
                                           x_reason_codes = None, x_obligations = None\<rparr>), st)
                          else
                            case mergeConstraints_call CONSTRAINT_TYPES
                                   (catalog_constraints_of catalogEntry)
                                   (passport_constraints_of passportPermission) of
                              Inl e \<Rightarrow> Inl e
                            | Inr effectiveConstraints \<Rightarrow>
                                (let celResult =
                                       evaluateConstraints sdk
                                         \<lparr>cel_constraints = effectiveConstraints,
                                          cel_action = action params,
                                          costCents = number_or_undefined (js_get (map_of (context' params)) ''amount_canonical''),
                                          metadata = context' params\<rparr>
                                         (t_cel clock)
                                 in if cel_decision celResult = BLOCK then
                                      (let blockEval = find (\<lambda>e. ev_decision e = BLOCK) (evaluations celResult)
                                       in Inr (deny CONSTRAINT_VIOLATED
                                                 (case blockEval of
                                                    None \<Rightarrow> ''Constraint violation''
                                                  | Some e \<Rightarrow>
                                                      (case reason e of
                                                         Some r \<Rightarrow> r
                                                       | None \<Rightarrow> ''Constraint violation''))
                                                 block_only, st))
                                    else if cel_decision celResult = SUSPEND then
                                      Inr (deny APPROVAL_REQUIRED
                                             ''Action requires approval before proceeding''
                                             (Some \<lparr>x_upgrade_template = None,
                                                     x_constraint_decision = Some SUSPEND,
                                                     x_reason_codes =
                                                       Some (case cel_reason_codes celResult of
                                                               Some rc \<Rightarrow> rc
                                                             | None \<Rightarrow> [''approval_required'']),
                                                     x_obligations =
                                                       Some (if length (cel_obligations celResult) > 0
                                                             then cel_obligations celResult
                                                             else [REQUIRE_APPROVAL])\<rparr>), st)
                                    else
                                      case validateConstraints_call CONSTRAINT_TYPES plat
                                             (passport_constraints_of passportPermission) (context' params)
                                             (catalog_constraints_of catalogEntry) of
                                        Inl e \<Rightarrow> Inl e
                                      | Inr legacyResult \<Rightarrow>
                                          if \<not> cv_valid legacyResult then
                                            Inr (deny CONSTRAINT_VIOLATED
                                                   (case cv_message legacyResult of
                                                      Some m \<Rightarrow> m
                                                    | None \<Rightarrow> ''Constraint validation failed'')
                                                   block_only, st)
                                          else if \<not> check (rateLimiter st) (t_check clock)
                                                      (action params) (Some (passport_id p)) then
                                            Inr (deny RATE_LIMITED ''Rate limit exceeded'' block_only, st)
                                          else
                                            Inr (\<lparr>allowed = True, decision = Permit,
                                                  constraint_decision = Some PERMIT,
                                                  reason_codes = None, obligations = None,
                                                  denial = None,
                                                  effective_constraints = Some effectiveConstraints,
                                                  confident = True\<rparr>,
                                                 st\<lparr>rateLimiter :=
                                                      increment (rateLimiter st) (t_increment clock)
                                                        (action params) (Some (passport_id p))\<rparr>)))))"

text \<open>Version 1.0.0: no anonymous branch, the legacy constraint validation only, string
  denial codes, and the merge computed for the permit result.\<close>

definition deny_v1_0 :: "string \<Rightarrow> string \<Rightarrow> string option \<Rightarrow> VerifyResult_v1_0" where
  "deny_v1_0 c m t =
     \<lparr>allowed_v1_0 = False,
      denial_v1_0 = Some \<lparr>code_v1_0 = c, message_v1_0 = m, upgrade_template_v1_0 = t\<rparr>,
      effective_constraints_v1_0 = None,
      confident_v1_0 = True\<rparr>"

definition verifyLocally_v1_0 ::
    "Platform \<Rightarrow> Clock \<Rightarrow> InMemoryRateLimiter \<Rightarrow> VerifyLocallyParams_v1_0
       \<Rightarrow> js_error + (VerifyResult_v1_0 \<times> InMemoryRateLimiter)" where
  "verifyLocally_v1_0 plat clock rl params =
     (case passport params of
        None \<Rightarrow> Inr (deny_v1_0 ''NO_PASSPORT'' ''No passport in session'' None, rl)
      | Some p \<Rightarrow>
          (let issuerKey = js_get (issuerKeys params) (issuer_id p) in
           if falsy_key issuerKey then
             Inr (deny_v1_0 ''ISSUER_NOT_TRUSTED'' (''Unknown issuer: '' @ issuer_id p) None, rl)
           else
             case (if skipSignatureVerification params then Inr True
                   else verifySignatureSync plat p issuerKey) of
               Inl e \<Rightarrow> Inl e
             | Inr signature_ok \<Rightarrow>
                 if \<not> signature_ok then
                   Inr (deny_v1_0 ''INVALID_SIGNATURE'' ''Passport signature invalid'' None, rl)
                 else if date_before plat (expires_at p) (t_expiry clock) then
                   Inr (deny_v1_0 ''PASSPORT_EXPIRED'' ''Passport has expired'' None, rl)
                 else if passport_id p \<in> revocationList params then
                   Inr (deny_v1_0 ''PASSPORT_REVOKED'' ''Passport has been revoked'' None, rl)
                 else
                   case resolveCatalogVersion (catalog params) (Some p) of
                     Deprecated \<Rightarrow>
                       Inr (deny_v1_0 ''CATALOG_VERSION_DEPRECATED''
                              ''Passport pins to deprecated catalog version'' None, rl)
                   | Resolved effectiveCatalog \<Rightarrow>
                       (let catalogEntry = js_get (permissionsByKey effectiveCatalog) (action params) in
                        if catalogEntry = Undefined then
                          Inr (deny_v1_0 ''PERMISSION_NOT_IN_CATALOG''
                                 (action params @ '' not in gate catalog'') None, rl)
                        else
                          let passportPermission = js_get (claimsByKey p) (action params) in
                          if passportPermission = Undefined then
                            Inr (deny_v1_0 ''PERMISSION_NOT_IN_PASSPORT''
                                   (''Passport lacks '' @ action params @ '' permission'')
                                   (default_template_of catalogEntry), rl)
                          else
                            case validateConstraints_call CONSTRAINT_TYPES_v1_0 plat
                                   (passport_constraints_of passportPermission) (context' params)
                                   (catalog_constraints_of catalogEntry) of
                              Inl e \<Rightarrow> Inl e
                            | Inr constraintResult \<Rightarrow>
                                if \<not> cv_valid constraintResult then
                                  Inr (deny_v1_0 ''CONSTRAINT_EXCEEDED''
                                         (case cv_message constraintResult of
                                            Some m \<Rightarrow> m
                                          | None \<Rightarrow> ''Constraint validation failed'') None, rl)
                                else if \<not> check rl (t_check clock) (action params)
                                            (Some (passport_id p)) then
                                  Inr (deny_v1_0 ''RATE_LIMIT_EXCEEDED'' ''Rate limit exceeded'' None, rl)
                                else
                                  (let rl' = increment rl (t_increment clock) (action params)
                                               (Some (passport_id p))
                                   in case mergeConstraints_call CONSTRAINT_TYPES_v1_0
                                             (catalog_constraints_of catalogEntry)
                                             (passport_constraints_of passportPermission) of
                                        Inl e \<Rightarrow> Inl e
                                      | Inr merged \<Rightarrow>
                                          Inr (\<lparr>allowed_v1_0 = True, denial_v1_0 = None,
                                                effective_constraints_v1_0 = Some merged,
                                                confident_v1_0 = True\<rparr>, rl')))))"

section \<open>Example inputs\<close>

text \<open>Concrete inputs on which the theorems below are run. The receipt environment's
  serializer and the signing callback are stand-ins: any functions would do.\<close>

definition example_env :: ReceiptEnv where
  "example_env =
     \<lparr>Number_of = (\<lambda>v. NaN),
      String_of = (\<lambda>a. ''?''),
      now_iso = ''2026-01-01T00:00:00.000Z'',
      fresh_attestation_id = ''catt_1'',
      JSON_stringify = attestation_id\<rparr>"

definition example_sign :: "string \<Rightarrow> string" where
  "example_sign payload = ''signed:'' @ payload"

text \<open>Scenario E of the specification: ten cents per call, a platform fee of 200 basis
  points, default units.\<close>

definition scenario_E_params :: IssueReceiptParams where
  "scenario_E_params =
     \<lparr>ir_gate_id = ''gate_weather'',
      ir_agent_id = ''agent_1'',
      ir_passport_id = ''passport_1'',
      ir_permission_key = ''weather:forecast'',
      ir_catalog_version = 1,
      ir_catalog_content_hash = None,
      ir_effective_constraints =
        plain_object
          [(''core:pricing:per_call_cents'', JNum 10), (''core:platform_fee:basis_points'', JNum 200)],
      ir_request_nonce = Some ''nonce_1'',
      ir_units = None,
      ir_duration_ms = None,
      ir_sign = example_sign,
      ir_signing_key_id = ''gate_weather#key-1''\<rparr>"

text \<open>A per-minute service that also declares a per-call price, called with a measured
  duration of zero milliseconds.\<close>

definition zero_duration_params :: IssueReceiptParams where
  "zero_duration_params =
     scenario_E_params
       \<lparr>ir_effective_constraints :=
          plain_object
            [(''core:pricing:model'', JStr ''per_minute''), (''core:pricing:per_call_cents'', JNum 10)],
        ir_duration_ms := Some (Num 0)\<rparr>"

definition example_pricing :: PricingConstraints where
  "example_pricing =
     empty_pricing\<lparr>per_call_cents := Own (JNum 10), per_minute_cents := Own (JNum 5)\<rparr>"

text \<open>
  Stand-ins for the platform and the protocol SDK. The first platform parses one
  timestamp and its Ed25519 check rejects every signature; the second accepts every
  signature. The SDK stand-in permits every constraint set and allows anonymous access to
  the actions the policy lists.
\<close>

definition rejecting_platform :: Platform where
  "rejecting_platform =
     \<lparr>Number_of = (\<lambda>v. NaN),
      String_of = (\<lambda>a. ''?''),
      Date_parse = (\<lambda>s. if s = ''2030-01-01T00:00:00.000Z'' then Some 1893456000000 else None),
      canonical_message = (\<lambda>p. Inr []),
      ed_verify = (\<lambda>s m k. Inr False)\<rparr>"

definition accepting_platform :: Platform where
  "accepting_platform = rejecting_platform\<lparr>ed_verify := (\<lambda>s m k. Inr True)\<rparr>"

definition example_sdk :: "unit ProtocolSDK" where
  "example_sdk =
     \<lparr>evaluateConstraints =
        (\<lambda>args t. \<lparr>cel_decision = PERMIT, evaluations = [], cel_reason_codes = None,
                    cel_obligations = []\<rparr>),
      evaluateAnonymousAccess =
        (\<lambda>args l t. (Some \<lparr>anon_allowed = (aa_action args \<in> set (allowed_actions (aa_policy args)))\<rparr>, l)),
      MemoryAnonymousRateLimiter = (\<lambda>perMinute perHour. ())\<rparr>"

definition search_claim :: PassportPermission where
  "search_claim = \<lparr>pp_permission_key = ''flights:search'', pp_constraints = []\<rparr>"

definition example_passport :: Passport where
  "example_passport =
     \<lparr>passport_id = ''passport_test_123'',
      issuer_id = ''issuer_trusted'',
      agent_id = ''agent_test'',
      gate_id = ''gate_test'',
      permissions = [search_claim],
      constraints = [],
      signature = ''a1b2'',
      expires_at = ''2030-01-01T00:00:00.000Z'',
      issued_at = ''2029-12-31T00:00:00.000Z'',
      catalog_version_pin = None,
      claimsByKey = [''flights:search'' \<mapsto> search_claim]\<rparr>"

definition search_entry :: CatalogPermission where
  "search_entry =
     \<lparr>cp_permission_key = ''flights:search'', display_name = ''Search Flights'',
      description = None, risk_level = low, cp_constraints = [],
      default_template = None, required_constraints = None\<rparr>"

definition example_catalog :: CachedCatalog where
  "example_catalog =
     \<lparr>cat_gate_id = ''gate_test'',
      current = \<lparr>version = 1, permissionsByKey = [''flights:search'' \<mapsto> search_entry],
                 published_at = ''2029-12-01T00:00:00.000Z''\<rparr>,
      versions = Map.empty,
      min_compatible_version = 1,
      cached_at = 1893450000000,
      cat_permissionsByKey = [''flights:search'' \<mapsto> search_entry]\<rparr>"

definition example_policy :: AnonymousAccessPolicy where
  "example_policy =
     \<lparr>enabled = True, allowed_actions = [''flights:search'', ''data:read''],
      read_only = Some True, rate_limit_per_minute = Some 5, rate_limit_per_hour = Some 50,
      upgrade_message = None\<rparr>"

definition example_params :: VerifyLocallyParams where
  "example_params =
     \<lparr>passport = Some example_passport,
      catalog = example_catalog,
      revocationList = {},
      issuerKeys = [''issuer_trusted'' \<mapsto> ''c3d4''],
      action = ''flights:search'',
      context' = [],
      skipSignatureVerification = False,
      anonymousPolicy = Some example_policy,
      sourceId = Some ''test-client''\<rparr>"

text \<open>A limiter with limits registered for two actions and no bucket yet.\<close>

definition example_limiter :: InMemoryRateLimiter where
  "example_limiter =
     setLimit (setLimit \<lparr>buckets = Map.empty, limits = Map.empty\<rparr> ''flights:search'' 2 60000)
       ''data:read'' 5 60000"

definition example_state :: "unit GateState" where
  "example_state = \<lparr>rateLimiter = example_limiter, anonymousRateLimiter = None\<rparr>"

text \<open>A call one second before the credential expires, and a call at the very instant.\<close>

definition early_clock :: Clock where
  "early_clock =
     \<lparr>t_anonymous = 1893455999000, t_expiry = 1893455999000, t_cel = 1893455999000,
      t_check = 1893455999000, t_increment = 1893455999000\<rparr>"

definition boundary_clock :: Clock where
  "boundary_clock =
     \<lparr>t_anonymous = 1893456000000, t_expiry = 1893456000000, t_cel = 1893456000000,
      t_check = 1893456000000, t_increment = 1893456000000\<rparr>"

definition late_clock :: Clock where
  "late_clock =
     \<lparr>t_anonymous = 1893456000001, t_expiry = 1893456000001, t_cel = 1893456000001,
      t_check = 1893456000001, t_increment = 1893456000001\<rparr>"

text \<open>The permit result for \<open>flights:search\<close> on the example credential and catalog.\<close>

definition search_permit :: VerifyResult where
  "search_permit =
     \<lparr>allowed = True, decision = Permit, constraint_decision = Some PERMIT,
      reason_codes = None, obligations = None, denial = None,
      effective_constraints = Some (plain_object []), confident = True\<rparr>"

definition anonymous_permit :: VerifyResult where
  "anonymous_permit =
     \<lparr>allowed = True, decision = Permit, constraint_decision = None,
      reason_codes = None, obligations = None, denial = None,
      effective_constraints = None, confident = True\<rparr>"

section \<open>Properties of the decimal normalizer\<close>

lemma is_digit_cases:
  "is_digit c \<longleftrightarrow> c = CHR ''0'' \<or> c = CHR ''1'' \<or> c = CHR ''2'' \<or> c = CHR ''3'' \<or> c = CHR ''4'' \<or>
     c = CHR ''5'' \<or> c = CHR ''6'' \<or> c = CHR ''7'' \<or> c = CHR ''8'' \<or> c = CHR ''9''"
  by (auto simp: is_digit_def)

lemma digit_not_special:
  assumes "is_digit c"
  shows "\<not> is_space c" "c \<noteq> CHR ''.''" "c \<noteq> CHR ''+''" "c \<noteq> CHR ''-''"
  using assms by (auto simp: is_digit_cases is_space_def)

lemma digit_val_le9: "is_digit c \<Longrightarrow> digit_val c \<le> 9"
  by (auto simp: is_digit_cases digit_val_def)

lemma dot_not_special: "\<not> is_space CHR ''.''" "\<not> is_digit CHR ''.''"
  by (simp_all add: is_space_def is_digit_def)

lemma sign_not_space: "\<not> is_space CHR ''+''" "\<not> is_space CHR ''-''"
  by (simp_all add: is_space_def)

lemma BigInt_snoc: "BigInt (ds @ [c]) = 10 * BigInt ds + int (digit_val c)"
  by (simp add: BigInt_def)

lemma positional_snoc: "positional (ds @ [c]) = 10 * positional ds + digit_val c"
proof -
  have "(\<Sum>i < length ds. digit_val ((ds @ [c]) ! i) * 10 ^ (Suc (length ds) - Suc i))
      = (\<Sum>i < length ds. 10 * (digit_val (ds ! i) * 10 ^ (length ds - Suc i)))"
  proof (rule sum.cong)
    fix i assume "i \<in> {..<length ds}"
    then have i: "i < length ds" by simp
    then have "Suc (length ds) - Suc i = Suc (length ds - Suc i)" by simp
    then show "digit_val ((ds @ [c]) ! i) * 10 ^ (Suc (length ds) - Suc i)
        = 10 * (digit_val (ds ! i) * 10 ^ (length ds - Suc i))"
      using i by (simp add: nth_append)
  qed simp
  then show ?thesis
    by (simp add: positional_def sum_distrib_left)
qed

lemma BigInt_positional: "BigInt ds = int (positional ds)"
proof (induction ds rule: rev_induct)
  case Nil
  show ?case by (simp add: BigInt_def positional_def)
next
  case (snoc c ds)
  then show ?case by (simp add: BigInt_snoc positional_snoc)
qed

lemma BigInt_append: "BigInt (xs @ ys) = BigInt xs * 10 ^ length ys + BigInt ys"
proof (induction ys rule: rev_induct)
  case Nil
  show ?case by (simp add: BigInt_def)
next
  case (snoc c ys)
  have "BigInt (xs @ ys @ [c]) = 10 * BigInt (xs @ ys) + int (digit_val c)"
    using BigInt_snoc [of "xs @ ys" c] by simp
  then show ?case using snoc by (simp add: BigInt_snoc algebra_simps)
qed

lemma BigInt_nonneg: "0 \<le> BigInt ds"
  by (simp add: BigInt_positional)

lemma BigInt_bound: "list_all is_digit ds \<Longrightarrow> BigInt ds < 10 ^ length ds"
proof (induction ds rule: rev_induct)
  case Nil
  show ?case by (simp add: BigInt_def)
next
  case (snoc c ds)
  then have "BigInt ds + 1 \<le> 10 ^ length ds" and "int (digit_val c) \<le> 9"
    using digit_val_le9 [of c] by simp_all
  then show ?case by (simp add: BigInt_snoc)
qed

lemma BigInt_zeros: "BigInt (replicate n CHR ''0'') = 0"
proof (induction n)
  case 0
  show ?case by (simp add: BigInt_def)
next
  case (Suc n)
  have "replicate (Suc n) CHR ''0'' = replicate n CHR ''0'' @ [CHR ''0'']"
    by (simp add: replicate_append_same)
  then show ?case using Suc by (simp only: BigInt_snoc) (simp add: digit_val_def)
qed

lemma split_on_plain: "sep \<notin> set w \<Longrightarrow> split_on sep w = [w]"
  by (induction w) auto

lemma split_on_sep: "sep \<notin> set w \<Longrightarrow> split_on sep (w @ sep # f) = w # split_on sep f"
  by (induction w) auto

lemma digits_no_dot: "list_all is_digit ds \<Longrightarrow> CHR ''.'' \<notin> set ds"
  using digit_not_special(2) by (auto simp: list_all_iff)

lemma takeWhile_digits: "list_all is_digit w \<Longrightarrow> takeWhile is_digit (w @ CHR ''.'' # f) = w"
  by (simp add: list_all_iff takeWhile_append2 dot_not_special) 

lemma dropWhile_digits: "list_all is_digit w \<Longrightarrow> dropWhile is_digit (w @ CHR ''.'' # f) = CHR ''.'' # f"
  by (simp add: list_all_iff dropWhile_append2 dot_not_special)

lemma takeWhile_all: "list_all is_digit w \<Longrightarrow> takeWhile is_digit w = w"
  by (simp add: list_all_iff)

lemma dropWhile_all: "list_all is_digit w \<Longrightarrow> dropWhile is_digit w = []"
  by (simp add: list_all_iff)

lemma trim_id: "s \<noteq> [] \<Longrightarrow> \<not> is_space (hd s) \<Longrightarrow> \<not> is_space (last s) \<Longrightarrow> trim s = s"
proof -
  assume a: "s \<noteq> []" "\<not> is_space (hd s)" "\<not> is_space (last s)"
  then have "dropWhile is_space s = s" by (cases s) auto
  moreover have "dropWhile is_space (rev s) = rev s"
    using a by (cases "rev s") (auto simp: last_rev [symmetric] hd_rev)
  ultimately show ?thesis by (simp add: trim_def)
qed

lemma build_eq:
  assumes "length ds \<le> P"
  shows "build whole P ds = BigInt whole * 10 ^ P + BigInt ds * 10 ^ (P - length ds)"
proof -
  have "take P (padEnd P CHR ''0'' ds) = ds @ replicate (P - length ds) CHR ''0''"
    using assms by (simp add: padEnd_def)
  moreover have "BigInt (ds @ replicate (P - length ds) CHR ''0'') = BigInt ds * 10 ^ (P - length ds)"
    by (simp add: BigInt_append BigInt_zeros)
  moreover have "BigInt [] = 0"
    by (simp add: BigInt_def)
  ultimately show ?thesis
    by (auto simp: build_def Let_def)
qed

lemma scaled_eq:
  "decimal_magnitude whole fraction * 10 ^ P
     = of_int (BigInt whole * 10 ^ P) + of_int (BigInt fraction) * 10 ^ P / 10 ^ length fraction"
  by (simp add: decimal_magnitude_def BigInt_positional algebra_simps)

lemma build_exact:
  assumes "length fraction \<le> P"
  shows "\<lfloor>decimal_magnitude whole fraction * 10 ^ P\<rfloor> = build whole P fraction"
proof -
  have "(10::rat) ^ P / 10 ^ length fraction = 10 ^ (P - length fraction)"
    using assms by (simp add: power_diff)
  moreover have "of_int (BigInt fraction) * (10::rat) ^ P / 10 ^ length fraction
      = of_int (BigInt fraction) * (10 ^ P / 10 ^ length fraction)"
    by simp
  ultimately have "of_int (BigInt fraction) * (10::rat) ^ P / 10 ^ length fraction
      = of_int (BigInt fraction * 10 ^ (P - length fraction))"
    by (simp only: of_int_mult of_int_power of_int_numeral)
  then have "decimal_magnitude whole fraction * 10 ^ P
      = of_int (BigInt whole * 10 ^ P + BigInt fraction * 10 ^ (P - length fraction))"
    unfolding scaled_eq by simp
  then show ?thesis
    using build_eq [OF assms, of whole] by (simp only: floor_of_int)
qed

lemma scaled_split:
  assumes "P < length fraction"
  shows "decimal_magnitude whole fraction * 10 ^ P
     = of_int (build whole P (take P fraction))
       + of_int (BigInt (drop P fraction)) / 10 ^ (length fraction - P)"
proof -
  let ?k = "length fraction - P"
  have len: "length (take P fraction) = P" using assms by simp
  have b: "build whole P (take P fraction) = BigInt whole * 10 ^ P + BigInt (take P fraction)"
    using build_eq [of "take P fraction" P whole] len by simp
  have "BigInt fraction = BigInt (take P fraction @ drop P fraction)" by simp
  also have "\<dots> = BigInt (take P fraction) * 10 ^ ?k + BigInt (drop P fraction)"
    by (simp only: BigInt_append length_drop)
  finally have f: "BigInt fraction = BigInt (take P fraction) * 10 ^ ?k + BigInt (drop P fraction)" .
  have "(10::rat) ^ length fraction = 10 ^ P * 10 ^ ?k"
    using assms by (simp add: power_add [symmetric])
  then have "of_int (BigInt fraction) * (10::rat) ^ P / 10 ^ length fraction
      = of_int (BigInt fraction) / 10 ^ ?k"
    by simp
  also have "\<dots> = of_int (BigInt (take P fraction)) + of_int (BigInt (drop P fraction)) / 10 ^ ?k"
    unfolding f by (simp add: add_divide_distrib)
  finally show ?thesis
    unfolding scaled_eq b by simp
qed

lemma build_truncates:
  assumes "P < length fraction" "list_all is_digit fraction"
  shows "\<lfloor>decimal_magnitude whole fraction * 10 ^ P\<rfloor> = build whole P (take P fraction)"
proof -
  let ?k = "length fraction - P"
  let ?D = "BigInt (drop P fraction)"
  have "list_all is_digit (drop P fraction)"
    using assms(2) by (auto simp: list_all_iff dest: in_set_dropD)
  then have "?D < 10 ^ ?k" using BigInt_bound [of "drop P fraction"] by simp
  then have "(of_int ?D :: rat) < 10 ^ ?k"
    by (metis of_int_less_iff of_int_numeral of_int_power)
  then have hi: "(of_int ?D :: rat) / 10 ^ ?k < 1" by simp
  have lo: "0 \<le> (of_int ?D :: rat) / 10 ^ ?k" by (simp add: BigInt_nonneg)
  show ?thesis
    unfolding scaled_split [OF assms(1)] using lo hi by (intro floor_unique) simp_all
qed

lemma build_rounds:
  assumes "P < length fraction" "list_all is_digit fraction"
  shows "\<lfloor>decimal_magnitude whole fraction * 10 ^ P + 1 / 2\<rfloor>
     = (if digit_val (fraction ! P) \<ge> 5 then build whole P (take P fraction) + 1
        else build whole P (take P fraction))"
proof -
  let ?k = "length fraction - P"
  let ?D = "BigInt (drop P fraction)"
  let ?d = "int (digit_val (fraction ! P))"
  let ?R = "BigInt (drop (Suc P) fraction)"
  have k: "?k = Suc (length fraction - Suc P)" using assms(1) by simp
  have dr: "drop P fraction = [fraction ! P] @ drop (Suc P) fraction"
    using assms(1) by (simp add: Cons_nth_drop_Suc)
  have "?D = BigInt [fraction ! P] * 10 ^ (length fraction - Suc P) + ?R"
    by (subst dr, simp only: BigInt_append length_drop)
  then have D: "?D = ?d * 10 ^ (length fraction - Suc P) + ?R"
    by (simp add: BigInt_def)
  have "list_all is_digit (drop (Suc P) fraction)"
    using assms(2) by (auto simp: list_all_iff dest: in_set_dropD)
  then have R: "?R < 10 ^ (length fraction - Suc P)" "0 \<le> ?R"
    using BigInt_bound [of "drop (Suc P) fraction"] by (simp_all add: BigInt_nonneg)
  have "is_digit (fraction ! P)" using assms by (simp add: list_all_length)
  then have d9: "?d \<le> 9" using digit_val_le9 by simp
  define m :: int where "m = 10 ^ (length fraction - Suc P)"
  have m: "0 < m" by (simp add: m_def)
  have Dm: "?D = ?d * m + ?R" "?R < m" using D R by (simp_all add: m_def)
  have km: "(10::rat) ^ ?k = 10 * of_int m" by (simp add: k m_def)
  have q: "(of_int ?D :: rat) / 10 ^ ?k = of_int ?D / (10 * of_int m)" by (simp only: km)
  show ?thesis
  proof (cases "digit_val (fraction ! P) \<ge> 5")
    case True
    then have "5 \<le> ?d" by simp
    then have "5 * m \<le> ?d * m" using m by (intro mult_right_mono) simp_all
    then have "5 * m \<le> ?D" using Dm R(2) by linarith
    then have "of_int (5 * m) \<le> (of_int ?D :: rat)" by (simp only: of_int_le_iff)
    then have lo: "1 / 2 \<le> (of_int ?D :: rat) / (10 * of_int m)"
      using m by (simp add: field_simps)
    have "?d * m \<le> 9 * m" using d9 m by (intro mult_right_mono) simp_all
    then have "?D < 10 * m" using Dm by linarith
    then have "(of_int ?D :: rat) < of_int (10 * m)" by (simp only: of_int_less_iff)
    then have hi: "(of_int ?D :: rat) / (10 * of_int m) < 1"
      using m by (simp add: field_simps)
    show ?thesis
      unfolding scaled_split [OF assms(1)] q using True lo hi
      by (simp, intro floor_unique) simp_all
  next
    case False
    then have "?d \<le> 4" by simp
    then have "?d * m \<le> 4 * m" using m by (intro mult_right_mono) simp_all
    then have "?D < 5 * m" using Dm by linarith
    then have "(of_int ?D :: rat) < of_int (5 * m)" by (simp only: of_int_less_iff)
    then have hi: "(of_int ?D :: rat) / (10 * of_int m) < 1 / 2"
      using m by (simp add: field_simps)
    have lo: "0 \<le> (of_int ?D :: rat) / (10 * of_int m)"
      using m by (simp add: BigInt_nonneg)
    show ?thesis
      unfolding scaled_split [OF assms(1)] q using False lo hi
      by (simp, intro floor_unique) simp_all
  qed
qed

lemma build_nonneg: "0 \<le> build whole P ds"
  by (simp add: build_def Let_def BigInt_nonneg)

lemma grammar_parse:
  assumes "decimal_grammar sign whole fraction"
  defines "s \<equiv> decimal_text sign whole fraction"
  shows "trim s = s" and "numeric_format s" and "(take 1 s = ''-'') = (sign = ''-'')"
    and "split_on CHR ''.'' (strip_sign s) = (if fraction = [] then [whole] else [whole, fraction])"
proof -
  let ?tail = "if fraction = [] then [] else CHR ''.'' # fraction"
  from assms(1) have sg: "sign = [] \<or> sign = ''+'' \<or> sign = ''-''"
    and w: "whole \<noteq> []" "list_all is_digit whole" and f: "list_all is_digit fraction"
    by (auto simp: decimal_grammar_def)
  from w obtain c cs where wc: "whole = c # cs" and c: "is_digit c"
    by (cases whole) auto
  have strip: "strip_sign s = whole @ ?tail"
    using sg wc digit_not_special [OF c] by (auto simp: s_def decimal_text_def strip_sign_def)
  have hd_ok: "\<not> is_space (hd s)"
    using sg wc digit_not_special [OF c] sign_not_space by (auto simp: s_def decimal_text_def)
  have "is_digit (last (whole @ ?tail))"
  proof (cases "fraction = []")
    case True
    then show ?thesis using w by (simp add: list_all_iff)
  next
    case False
    then show ?thesis using f by (simp add: list_all_iff)
  qed
  moreover have "last s = last (whole @ ?tail)"
    using w by (simp add: s_def decimal_text_def)
  ultimately have last_ok: "\<not> is_space (last s)"
    using digit_not_special(1) by simp
  have "s \<noteq> []" using w by (simp add: s_def decimal_text_def)
  then show "trim s = s" using hd_ok last_ok by (rule trim_id)
  show "numeric_format s"
    unfolding numeric_format_def strip
    using w f by (simp add: Let_def takeWhile_digits dropWhile_digits takeWhile_all dropWhile_all)
  show "(take 1 s = ''-'') = (sign = ''-'')"
    using sg wc digit_not_special [OF c] by (auto simp: s_def decimal_text_def)
  show "split_on CHR ''.'' (strip_sign s) = (if fraction = [] then [whole] else [whole, fraction])"
    unfolding strip using digits_no_dot [OF w(2)] digits_no_dot [OF f]
    by (simp add: split_on_plain split_on_sep)
qed

lemma transformToCanonical_refines:
  assumes g: "decimal_grammar sign whole fraction"
  shows "transformToCanonical (decimal_text sign whole fraction) P mode
       = canonical_spec (sign = ''-'') whole fraction P mode"
proof -
  let ?s = "decimal_text sign whole fraction"
  from g have w: "whole \<noteq> []" and f: "list_all is_digit fraction"
    by (auto simp: decimal_grammar_def)
  note p = grammar_parse [OF g]
  have parts: "(case split_on CHR ''.'' (strip_sign ?s) of [] \<Rightarrow> [] | w # _ \<Rightarrow> w) = whole"
     "(case split_on CHR ''.'' (strip_sign ?s) of _ # d # _ \<Rightarrow> d | _ \<Rightarrow> []) = fraction"
    by (simp_all add: p(4))
  have neg: "(take (Suc 0) ?s = ''-'') = (sign = ''-'')"
    using p(3) by simp
  show ?thesis
  proof (cases "P < length fraction")
    case False
    then have le: "length fraction \<le> P" by simp
    show ?thesis
      using False w build_nonneg [of whole P fraction]
      by (auto simp: transformToCanonical_def canonical_spec_def Let_def p(1,2) neg parts
          MAX_SAFE_INTEGER_def build_exact [OF le])
  next
    case True
    show ?thesis
    proof (cases mode)
      case Strict
      then show ?thesis using True w
        by (simp add: transformToCanonical_def canonical_spec_def Let_def p(1,2) neg parts)
    next
      case Truncate
      then show ?thesis
        using True w build_nonneg [of whole P "take P fraction"]
        by (auto simp: transformToCanonical_def canonical_spec_def Let_def p(1,2) neg parts
            MAX_SAFE_INTEGER_def build_truncates [OF True f])
    next
      case Round
      show ?thesis
        using Round True w build_nonneg [of whole P "take P fraction"]
        by (auto simp: transformToCanonical_def canonical_spec_def Let_def p(1,2) neg parts
            MAX_SAFE_INTEGER_def build_rounds [OF True f])
    qed
  qed
qed

lemma vector_1: "transformToCanonical ''1.00'' 2 Strict = Inr 100"
  by code_simp

lemma vector_2: "transformToCanonical ''1.005'' 2 Strict = Inl PrecisionExceeded"
  by code_simp

lemma vector_3: "transformToCanonical ''1.005'' 2 Round = Inr 101"
  by code_simp

lemma vector_4: "transformToCanonical ''1.005'' 2 Truncate = Inr 100"
  by code_simp

lemma vector_5: "transformToCanonical ''-1.005'' 2 Round = Inr (- 101)"
  by code_simp

lemma vector_6: "transformToCanonical ''4.99'' 2 Strict = Inr 499"
  by code_simp

lemma vector_7: "transformToCanonical ''0.00000001'' 8 Strict = Inr 1"
  by code_simp

lemma vector_8: "transformToCanonical ''90071992547409.91'' 2 Strict = Inr 9007199254740991"
  by code_simp

lemma vector_9: "transformToCanonical ''90071992547409.92'' 2 Strict = Inl Overflow"
  by code_simp

text \<open>
  C1. On every text of the grammar \<open>[+-]?digits(.digits)?\<close>, for every precision \<open>P\<close> and
  every mode, \<open>transformToCanonical\<close> returns what the specification computes from the
  exact rational value scaled by \<open>10^P\<close>: a failure in strict mode when the fraction is
  longer than \<open>P\<close>, the floor of the scaled magnitude in truncate mode, the scaled
  magnitude rounded half away from zero in round mode, the sign applied afterwards, and an
  overflow failure exactly when the magnitude exceeds \<open>2^53 - 1\<close>. The nine reference
  vectors hold.
\<close>

theorem transformToCanonical_meets_spec:
  "(\<forall>sign whole fraction P mode.
      decimal_grammar sign whole fraction \<longrightarrow>
      transformToCanonical (decimal_text sign whole fraction) P mode
        = canonical_spec (sign = ''-'') whole fraction P mode)
   \<and> transformToCanonical ''1.00'' 2 Strict = Inr 100
   \<and> transformToCanonical ''1.005'' 2 Strict = Inl PrecisionExceeded
   \<and> transformToCanonical ''1.005'' 2 Round = Inr 101
   \<and> transformToCanonical ''1.005'' 2 Truncate = Inr 100
   \<and> transformToCanonical ''-1.005'' 2 Round = Inr (- 101)
   \<and> transformToCanonical ''4.99'' 2 Strict = Inr 499
   \<and> transformToCanonical ''0.00000001'' 8 Strict = Inr 1
   \<and> transformToCanonical ''90071992547409.91'' 2 Strict = Inr 9007199254740991
   \<and> transformToCanonical ''90071992547409.92'' 2 Strict = Inl Overflow"
  using transformToCanonical_refines vector_1 vector_2 vector_3 vector_4 vector_5
    vector_6 vector_7 vector_8 vector_9
  by blast

theorem transformToCanonical_meets_spec_witness:
  "decimal_grammar ''-'' ''1'' ''005''
   \<and> transformToCanonical ''-1.005'' 2 Round = canonical_spec True ''1'' ''005'' 2 Round
   \<and> canonical_spec True ''1'' ''005'' 2 Round = Inr (- 101)"
proof -
  have g: "decimal_grammar ''-'' ''1'' ''005''"
    by (simp add: decimal_grammar_def is_digit_def)
  have "transformToCanonical (decimal_text ''-'' ''1'' ''005'') 2 Round
      = canonical_spec (''-'' = ''-'') ''1'' ''005'' 2 Round"
    using transformToCanonical_meets_spec g by blast
  moreover have "canonical_spec True ''1'' ''005'' 2 Round = Inr (- 101)"
    by code_simp
  ultimately show ?thesis using g by (simp add: decimal_text_def)
qed

section \<open>Properties of the constraint merge\<close>

lemma set_property_update:
  "k \<noteq> ''__proto__'' \<Longrightarrow>
     set_property k v obj = obj\<lparr>own_properties := AList.update k v (own_properties obj)\<rparr>"
  by (simp add: set_property_def)

lemma get_property_number:
  "prototype obj = Object_prototype \<Longrightarrow>
     (get_property obj k = Own (JNum c)) = (map_of (own_properties obj) k = Some (JNum c))"
  by (auto simp: get_property_def js_get_def split: option.splits)

lemma merge_entries_lookup:
  assumes "distinct (map fst Y)" and "''__proto__'' \<notin> set (map fst Y)"
    and "prototype M = Object_prototype"
  shows "prototype (merge_entries reg M Y) = Object_prototype
     \<and> map_of (own_properties (merge_entries reg M Y)) k =
     (case map_of Y k of
        None \<Rightarrow> map_of (own_properties M) k
      | Some pv \<Rightarrow>
          if is_limit (reg k) \<and> is_number pv then
            (case map_of (own_properties M) k of
               Some (JNum c) \<Rightarrow> (case pv of JNum p \<Rightarrow> Some (JNum (min c p)) | _ \<Rightarrow> Some pv)
             | _ \<Rightarrow> Some pv)
          else if is_term (reg k) then map_of (own_properties M) k
          else Some pv)"
  using assms
proof (induction Y arbitrary: M)
  case Nil
  then show ?case by simp
next
  case (Cons e rest)
  obtain key v where e: "e = (key, v)" by (cases e)
  from Cons.prems e have d: "distinct (map fst rest)" and fresh: "map_of rest key = None"
    and np: "''__proto__'' \<notin> set (map fst rest)" and kp: "key \<noteq> ''__proto__''"
    by (auto simp: map_of_eq_None_iff)
  note pm = Cons.prems(3)
  note upd = set_property_update [OF kp]
  have pu: "\<And>w. prototype (M\<lparr>own_properties := AList.update key w (own_properties M)\<rparr>)
      = Object_prototype"
    using pm by simp
  have IH: "prototype (merge_entries reg M' rest) = Object_prototype"
      "map_of (own_properties (merge_entries reg M' rest)) k =
         (case map_of rest k of
            None \<Rightarrow> map_of (own_properties M') k
          | Some pv \<Rightarrow>
              if is_limit (reg k) \<and> is_number pv then
                (case map_of (own_properties M') k of
                   Some (JNum c) \<Rightarrow> (case pv of JNum p \<Rightarrow> Some (JNum (min c p)) | _ \<Rightarrow> Some pv)
                 | _ \<Rightarrow> Some pv)
              else if is_term (reg k) then map_of (own_properties M') k
              else Some pv)"
    if "prototype M' = Object_prototype" for M'
    using Cons.IH [OF d np that] by simp_all
  show ?case
  proof (cases "k = key")
    case True
    note IH' = IH [unfolded True]
    show ?thesis
      unfolding True using fresh pm
      by (auto simp: e IH' upd Let_def update_conv' is_number_def
          get_property_def js_get_def
          split: option.splits jsval.splits property.splits)
  next
    case False
    then show ?thesis
      using pm
      by (auto simp: e IH upd Let_def update_conv'
          split: option.splits jsval.splits property.splits)
  qed
qed

lemma mergeConstraints_lookup:
  assumes "distinct (map fst Y)" and "''__proto__'' \<notin> set (map fst Y)"
  shows "prototype (mergeConstraints reg X Y) = Object_prototype"
    and "map_of (own_properties (mergeConstraints reg X Y)) k =
     (case map_of Y k of
        None \<Rightarrow> map_of X k
      | Some pv \<Rightarrow>
          if is_limit (reg k) \<and> is_number pv then
            (case map_of X k of
               Some (JNum c) \<Rightarrow> (case pv of JNum p \<Rightarrow> Some (JNum (min c p)) | _ \<Rightarrow> Some pv)
             | _ \<Rightarrow> Some pv)
          else if is_term (reg k) then map_of X k
          else Some pv)"
proof -
  have o: "own_properties (plain_object X) = X"
    and p: "prototype (plain_object X) = Object_prototype"
    by (simp_all add: plain_object_def)
  note t = merge_entries_lookup [OF assms p, of reg k, unfolded o]
  show "prototype (mergeConstraints reg X Y) = Object_prototype"
    unfolding mergeConstraints_def Let_def using t by (rule conjunct1)
  show "map_of (own_properties (mergeConstraints reg X Y)) k =
     (case map_of Y k of
        None \<Rightarrow> map_of X k
      | Some pv \<Rightarrow>
          if is_limit (reg k) \<and> is_number pv then
            (case map_of X k of
               Some (JNum c) \<Rightarrow> (case pv of JNum p \<Rightarrow> Some (JNum (min c p)) | _ \<Rightarrow> Some pv)
             | _ \<Rightarrow> Some pv)
          else if is_term (reg k) then map_of X k
          else Some pv)"
    unfolding mergeConstraints_def Let_def using t by (rule conjunct2)
qed

lemma limit_not_term: "is_limit t \<Longrightarrow> \<not> is_term t"
  by (auto simp: is_limit_def is_term_def split: option.splits)

text \<open>
  The merge equations, for a credential record with distinct keys, none of them \<open>__proto__\<close>,
  and either version of the registry. The result keeps the prototype \<open>Object.prototype\<close>,
  and its own properties are: for a limit key with numbers on both sides their minimum; for
  a limit key present on one side only that side's value; for a term key the catalog's
  value (none when the catalog has none), whatever the credential says; for a key outside
  the registry the credential's value when there is one and the catalog's otherwise.
\<close>

lemma mergeConstraints_equations:
  assumes "distinct (map fst Y)" and "''__proto__'' \<notin> set (map fst Y)"
  shows "prototype (mergeConstraints reg X Y) = Object_prototype
       \<and> (is_limit (reg k) \<and> map_of X k = Some (JNum a) \<and> map_of Y k = Some (JNum b)
            \<longrightarrow> map_of (own_properties (mergeConstraints reg X Y)) k = Some (JNum (min a b)))
       \<and> (is_limit (reg k) \<and> map_of X k = None
            \<longrightarrow> map_of (own_properties (mergeConstraints reg X Y)) k = map_of Y k)
       \<and> (is_limit (reg k) \<and> map_of Y k = None
            \<longrightarrow> map_of (own_properties (mergeConstraints reg X Y)) k = map_of X k)
       \<and> (is_term (reg k) \<longrightarrow> map_of (own_properties (mergeConstraints reg X Y)) k = map_of X k)
       \<and> (reg k = None
            \<longrightarrow> map_of (own_properties (mergeConstraints reg X Y)) k
                = (case map_of Y k of Some v \<Rightarrow> Some v | None \<Rightarrow> map_of X k))"
proof (intro conjI impI)
  show "prototype (mergeConstraints reg X Y) = Object_prototype"
    by (rule mergeConstraints_lookup(1) [OF assms])
next
  assume "is_limit (reg k) \<and> map_of X k = Some (JNum a) \<and> map_of Y k = Some (JNum b)"
  then show "map_of (own_properties (mergeConstraints reg X Y)) k = Some (JNum (min a b))"
    by (simp add: mergeConstraints_lookup(2) [OF assms] is_number_def)
next
  assume "is_limit (reg k) \<and> map_of X k = None"
  then show "map_of (own_properties (mergeConstraints reg X Y)) k = map_of Y k"
    by (auto simp: mergeConstraints_lookup(2) [OF assms] limit_not_term split: option.splits)
next
  assume "is_limit (reg k) \<and> map_of Y k = None"
  then show "map_of (own_properties (mergeConstraints reg X Y)) k = map_of X k"
    by (simp add: mergeConstraints_lookup(2) [OF assms])
next
  assume "is_term (reg k)"
  then have "\<not> is_limit (reg k)" using limit_not_term by blast
  then show "map_of (own_properties (mergeConstraints reg X Y)) k = map_of X k"
    using \<open>is_term (reg k)\<close>
    by (simp add: mergeConstraints_lookup(2) [OF assms] split: option.splits)
next
  assume "reg k = None"
  then show "map_of (own_properties (mergeConstraints reg X Y)) k
      = (case map_of Y k of Some v \<Rightarrow> Some v | None \<Rightarrow> map_of X k)"
    by (simp add: mergeConstraints_lookup(2) [OF assms] is_limit_def is_term_def split: option.splits)
qed

lemma limit_max_per_minute:
  "is_limit (CONSTRAINT_TYPES ''core:rate:max_per_minute'')"
  "is_limit (CONSTRAINT_TYPES_v1_0 ''core:rate:max_per_minute'')"
  by (simp_all add: CONSTRAINT_TYPES_def CONSTRAINT_TYPES_v1_0_def is_limit_def)

lemmas merge_run_defs =
  mergeConstraints_def plain_object_def set_property_def get_property_def js_get_def
  is_limit_def is_term_def is_number_def Let_def Object_prototype_names_def

text \<open>
  A credential record whose only key is \<open>__proto__\<close>, with a number as value: the key is
  not in the registry, the assignment reaches the setter of \<open>Object.prototype\<close>, which
  ignores a number, and the result has no such property.
\<close>

lemma mergeConstraints_drops_proto_key:
  "CONSTRAINT_TYPES ''__proto__'' = None
   \<and> mergeConstraints CONSTRAINT_TYPES [] [(''__proto__'', JNum 5)] = plain_object []
   \<and> get_property (mergeConstraints CONSTRAINT_TYPES [] [(''__proto__'', JNum 5)]) ''__proto__''
       = Inherited"
  by (simp add: merge_run_defs CONSTRAINT_TYPES_def)

text \<open>
  C4 fails on a credential record with the key \<open>__proto__\<close>. The catalog has no
  constraints; the credential, as \<open>JSON.parse\<close> builds it, has the own property
  \<open>__proto__\<close> with the object \<open>{"core:rate:max_per_minute": 1}\<close> as value and the limit
  \<open>core:rate:max_per_minute\<close> with value 10. Only the credential has the limit key, so the
  merged value should be 10. The loop first assigns \<open>merged['__proto__']\<close>, which replaces
  the prototype of \<open>merged\<close>; it then reads \<open>merged['core:rate:max_per_minute']\<close>, finds
  the number 1 on the new prototype, and stores the minimum of 1 and 10. Both versions of
  the registry give 1.
\<close>

theorem mergeConstraints_proto_key_diverges:
  "is_limit (CONSTRAINT_TYPES ''core:rate:max_per_minute'')
   \<and> is_limit (CONSTRAINT_TYPES_v1_0 ''core:rate:max_per_minute'')
   \<and> distinct (map fst [(''__proto__'', JObj [(''core:rate:max_per_minute'', JNum 1)]),
                         (''core:rate:max_per_minute'', JNum 10)])
   \<and> map_of [(''__proto__'', JObj [(''core:rate:max_per_minute'', JNum 1)]),
              (''core:rate:max_per_minute'', JNum 10)] ''core:rate:max_per_minute'' = Some (JNum 10)
   \<and> get_property
        (mergeConstraints CONSTRAINT_TYPES []
           [(''__proto__'', JObj [(''core:rate:max_per_minute'', JNum 1)]),
            (''core:rate:max_per_minute'', JNum 10)])
        ''core:rate:max_per_minute'' = Own (JNum 1)
   \<and> get_property
        (mergeConstraints CONSTRAINT_TYPES_v1_0 []
           [(''__proto__'', JObj [(''core:rate:max_per_minute'', JNum 1)]),
            (''core:rate:max_per_minute'', JNum 10)])
        ''core:rate:max_per_minute'' = Own (JNum 1)"
  by (simp add: merge_run_defs CONSTRAINT_TYPES_def CONSTRAINT_TYPES_v1_0_def)

text \<open>
  C5, as the code has it. The merge has no failure outcome. Called as the hot path calls
  it, on any catalog record (or none) and any credential record, \<open>mergeConstraints\<close> returns
  an object and raises no exception, whatever the values of the limit keys are; there is
  no \<open>constraint_type_error\<close>. (The only exception of the call is the \<open>TypeError\<close> of
  \<open>Object.entries\<close> when the credential record itself is \<open>undefined\<close>.)
\<close>

theorem mergeConstraints_has_no_failure:
  "mergeConstraints_call reg catalogConstraints (Some Y)
     = Inr (mergeConstraints reg (case catalogConstraints of None \<Rightarrow> [] | Some X \<Rightarrow> X) Y)
   \<and> (\<forall>e. mergeConstraints_call reg catalogConstraints (Some Y) \<noteq> Inl e)"
  by (simp add: mergeConstraints_call_def)

text \<open>
  C5 as stated fails: the credential gives the limit key \<open>core:rate:max_per_minute\<close> the
  string \<open>many\<close>; the merge does not fail, and the object it returns carries the string.
\<close>

theorem mergeConstraints_type_error_counterexample:
  "is_limit (CONSTRAINT_TYPES ''core:rate:max_per_minute'')
   \<and> \<not> is_number (JStr ''many'')
   \<and> mergeConstraints_call CONSTRAINT_TYPES (Some [(''core:rate:max_per_minute'', JNum 5)])
        (Some [(''core:rate:max_per_minute'', JStr ''many'')])
       = Inr (plain_object [(''core:rate:max_per_minute'', JStr ''many'')])"
  by (simp add: mergeConstraints_call_def merge_run_defs CONSTRAINT_TYPES_def)

section \<open>Properties of costs, fees and receipts\<close>

lemma pow2_powi: "pow2 e = power_int 2 e"
  by (simp add: pow2_def power_int_def power_inverse [symmetric] inverse_eq_divide power_divide)

lemma pow2_pos: "0 < pow2 e"
  by (simp add: pow2_powi)

lemma pow2_add: "pow2 (a + b) = pow2 a * pow2 b"
  by (simp add: pow2_powi power_int_add)

lemma pow2_nat: "pow2 (int n) = 2 ^ n"
  by (simp add: pow2_def)

lemma pow2_mono: "a \<le> b \<Longrightarrow> pow2 a \<le> pow2 b"
  by (simp add: pow2_powi power_int_increasing)

lemma pow2_strict_mono: "a < b \<Longrightarrow> pow2 a < pow2 b"
  by (simp add: pow2_powi power_int_strict_increasing)

lemma pow2_less_cancel: "pow2 a < pow2 b \<Longrightarrow> a < b"
  using pow2_mono [of b a] by (cases "a < b") auto

lemma floor_log2_bounds:
  assumes "0 < x"
  shows "pow2 (floor_log2 x) \<le> x \<and> x < pow2 (floor_log2 x + 1)"
proof -
  obtain p q where pq: "quotient_of x = (p, q)" by (cases "quotient_of x")
  have q: "0 < q" using pq by (rule quotient_of_denom_pos)
  have x: "x = of_int p / of_int q" using pq by (rule quotient_of_div)
  have p: "0 < p" using assms q x by (simp add: zero_less_divide_iff)
  let ?bp = "bitlen p" and ?bq = "bitlen q"
  have bp1: "1 \<le> ?bp" and bq1: "1 \<le> ?bq"
    using p q bitlen_eq_zero_iff [of p] bitlen_eq_zero_iff [of q] bitlen_nonneg [of p]
      bitlen_nonneg [of q] by linarith+
  have "(2::int) ^ nat (?bp - 1) \<le> p" "p < 2 ^ nat ?bp" using bitlen_bounds [OF p] by simp_all
  then have "(of_int ((2::int) ^ nat (?bp - 1)) :: rat) \<le> of_int p"
      "(of_int p :: rat) < of_int (2 ^ nat ?bp)"
    by (simp_all only: of_int_le_iff of_int_less_iff)
  then have P: "pow2 (?bp - 1) \<le> of_int p" "of_int p < pow2 ?bp"
    using bp1 by (simp_all add: pow2_def)
  have "(2::int) ^ nat (?bq - 1) \<le> q" "q < 2 ^ nat ?bq" using bitlen_bounds [OF q] by simp_all
  then have "(of_int ((2::int) ^ nat (?bq - 1)) :: rat) \<le> of_int q"
      "(of_int q :: rat) < of_int (2 ^ nat ?bq)"
    by (simp_all only: of_int_le_iff of_int_less_iff)
  then have Q: "pow2 (?bq - 1) \<le> of_int q" "of_int q < pow2 ?bq"
    using bq1 by (simp_all add: pow2_def)
  let ?d = "?bp - ?bq"
  have qpos: "(0::rat) < of_int q" using q by simp
  have lo: "pow2 (?d - 1) < x"
  proof -
    have "pow2 (?d - 1) * of_int q < pow2 (?d - 1) * pow2 ?bq"
      using Q(2) pow2_pos [of "?d - 1"] by (simp add: mult_strict_left_mono)
    also have "\<dots> = pow2 (?bp - 1)" by (simp add: pow2_add [symmetric])
    also have "\<dots> \<le> of_int p" by (rule P(1))
    finally show ?thesis using qpos by (simp add: x pos_less_divide_eq)
  qed
  have hi: "x < pow2 (?d + 1)"
  proof -
    have "of_int p < pow2 ?bp" by (rule P(2))
    also have "\<dots> = pow2 (?d + 1) * pow2 (?bq - 1)" by (simp add: pow2_add [symmetric])
    also have "\<dots> \<le> pow2 (?d + 1) * of_int q"
      using Q(1) pow2_pos [of "?d + 1"] by (simp add: mult_left_mono)
    finally show ?thesis using qpos by (simp add: x pos_divide_less_eq)
  qed
  show ?thesis
  proof (cases "pow2 ?d \<le> x")
    case True
    then have "floor_log2 x = ?d" by (simp add: floor_log2_def pq)
    then show ?thesis using True hi by simp
  next
    case False
    then have "floor_log2 x = ?d - 1" by (simp add: floor_log2_def pq)
    then show ?thesis using False lo by simp
  qed
qed

lemma floor_log2_le: "0 < x \<Longrightarrow> x < pow2 (U + 1) \<Longrightarrow> floor_log2 x \<le> U"
  using floor_log2_bounds [of x] pow2_less_cancel [of "floor_log2 x" "U + 1"] by force

lemma floor_log2_ge: "0 < x \<Longrightarrow> pow2 L \<le> x \<Longrightarrow> L \<le> floor_log2 x"
  using floor_log2_bounds [of x] pow2_less_cancel [of L "floor_log2 x + 1"] by force

lemma round_half_even_int: "round_half_even (of_int n) = n"
  by (simp add: round_half_even_def)

lemma round_half_even_error: "\<bar>of_int (round_half_even y) - y\<bar> \<le> 1 / 2"
proof -
  define f where "f = \<lfloor>y\<rfloor>"
  have b: "of_int f \<le> y" "y < of_int f + 1" unfolding f_def by linarith+
  consider "y - of_int f < 1 / 2" | "1 / 2 < y - of_int f" | "y - of_int f = 1 / 2"
    by linarith
  then show ?thesis
  proof cases
    case 1
    then have "round_half_even y = f" by (simp add: round_half_even_def f_def)
    then show ?thesis using 1 b by simp
  next
    case 2
    then have "round_half_even y = f + 1" by (simp add: round_half_even_def f_def)
    then show ?thesis using 2 b by simp
  next
    case 3
    then have "round_half_even y = f \<or> round_half_even y = f + 1"
      by (simp add: round_half_even_def f_def Let_def)
    then show ?thesis using 3 b by auto
  qed
qed

text \<open>
  An integer of magnitude up to \<open>2^53\<close> is a double: rounding leaves it as it is.
\<close>

lemma fl_int_exact:
  assumes "0 \<le> n" and "n \<le> 2 ^ 53"
  shows "fl (of_int n) = Num (of_int n)"
proof (cases "n = 0")
  case True
  then show ?thesis by (simp add: fl_def)
next
  case False
  then have n: "0 < n" using assms by simp
  let ?x = "of_int n :: rat"
  let ?L = "floor_log2 ?x"
  have x: "0 < ?x" using n by simp
  have "pow2 0 \<le> ?x" using n by (simp add: pow2_def)
  then have L0: "0 \<le> ?L" using x by (rule floor_log2_ge [rotated])
  have "(of_int n :: rat) \<le> of_int (2 ^ 53)" using assms(2) by (simp only: of_int_le_iff)
  then have x53: "?x \<le> 2 ^ 53" by simp
  then have "?x < pow2 (53 + 1)" by (simp add: pow2_def)
  then have L53: "?L \<le> 53" using x by (rule floor_log2_le [rotated])
  define e where "e = max (?L - 52) (- 1074)"
  have e: "e = ?L - 52" using L0 by (simp add: e_def)
  have "\<exists>m. ?x / pow2 e = of_int m"
  proof (cases "e \<le> 0")
    case True
    then have "pow2 e = 1 / 2 ^ nat (- e)" by (cases "e = 0") (simp_all add: pow2_def)
    then have "?x / pow2 e = of_int (n * 2 ^ nat (- e))" by simp
    then show ?thesis by blast
  next
    case False
    then have e1: "e = 1" using e L53 by simp
    then have "?L = 53" using e by simp
    then have "pow2 53 \<le> ?x" using floor_log2_bounds [OF x] by simp
    then have "?x = 2 ^ 53" using x53 by (simp add: pow2_def)
    then have "?x / pow2 e = of_int (2 ^ 52)" by (simp add: e1 pow2_def)
    then show ?thesis by blast
  qed
  then obtain m where m: "?x / pow2 e = of_int m" by blast
  have "fl_pos ?x = of_int (round_half_even (?x / pow2 e)) * pow2 e"
    by (simp add: fl_pos_def e_def Let_def)
  also have "\<dots> = ?x / pow2 e * pow2 e" by (simp only: m round_half_even_int)
  also have "\<dots> = ?x" using pow2_pos [of e] by simp
  finally have v: "fl_pos ?x = ?x" .
  have "?x < pow2 1024"
  proof -
    have "?x \<le> pow2 53" using x53 by (simp add: pow2_def)
    also have "\<dots> < pow2 1024" by (rule pow2_strict_mono) simp
    finally show ?thesis .
  qed
  then show ?thesis using x v by (simp add: fl_def Let_def)
qed

lemma fl_pos_error:
  assumes "0 < x" and "- 1022 \<le> floor_log2 x"
  shows "\<bar>fl_pos x - x\<bar> \<le> pow2 (floor_log2 x - 53)"
proof -
  define e where "e = floor_log2 x - 52"
  have e: "max (floor_log2 x - 52) (- 1074) = e" using assms(2) by (simp add: e_def)
  define y where "y = x / pow2 e"
  define m where "m = round_half_even y"
  define v where "v = fl_pos x"
  have v: "v = of_int m * pow2 e"
    unfolding v_def fl_pos_def Let_def e m_def y_def by (rule refl)
  have x: "x = y * pow2 e" using pow2_pos [of e] by (simp add: y_def)
  have "v - x = (of_int m - y) * pow2 e" by (simp add: v x algebra_simps)
  then have "\<bar>v - x\<bar> = \<bar>of_int m - y\<bar> * pow2 e"
    using pow2_pos [of e] by (simp add: abs_mult)
  also have "\<dots> \<le> 1 / 2 * pow2 e"
    using round_half_even_error [of y] pow2_pos [of e] unfolding m_def
    by (intro mult_right_mono) simp_all
  also have "\<dots> = pow2 (- 1) * pow2 e" by (simp add: pow2_def)
  also have "\<dots> = pow2 (floor_log2 x - 53)" by (simp add: pow2_add [symmetric] e_def)
  finally have "\<bar>v - x\<bar> \<le> pow2 (floor_log2 x - 53)" .
  then show ?thesis unfolding v_def .
qed

lemma fl_pos_value: "0 < x \<Longrightarrow> fl_pos x < pow2 1024 \<Longrightarrow> fl x = Num (fl_pos x)"
  by (simp add: fl_def Let_def)


text \<open>
  The ceiling of a rounded quotient. For an integer \<open>n\<close> from 0 to \<open>2^53\<close> and a divisor \<open>c\<close>
  such as 10000 or 60000, the double nearest to \<open>n / c\<close> differs from it by less than
  \<open>1 / c\<close>, so \<open>Math.ceil(n / c)\<close> is the exact ceiling.
\<close>

lemma ceil_fl_quotient:
  assumes n: "0 \<le> n" "n \<le> 2 ^ 53" and c: "0 < c"
    and K: "2 ^ 53 < of_int c * pow2 (K + 1)"
    and small: "of_int c * pow2 (K - 53) < 1"
    and low: "pow2 (- 1022) * of_int c \<le> 1"
  shows "Math_ceil (js_divide (Num (of_int n)) (Num (of_int c)))
           = Num (of_int \<lceil>(of_int n :: rat) / of_int c\<rceil>)"
proof -
  let ?x = "(of_int n :: rat) / of_int c"
  have cpos: "(0::rat) < of_int c" using c by simp
  have d: "js_divide (Num (of_int n)) (Num (of_int c)) = fl ?x"
    using c by (simp add: js_divide_def)
  show ?thesis
  proof (cases "c dvd n")
    case True
    then obtain k where k: "n = c * k" by (rule dvdE)
    have xk: "?x = of_int k" using c by (simp add: k)
    have "0 \<le> k" using n(1) c k by (simp add: zero_le_mult_iff)
    moreover have "k \<le> n" using c \<open>0 \<le> k\<close> k by (simp add: mult_le_cancel_right1)
    ultimately have "fl (of_int k) = Num (of_int k)" using n(2) by (intro fl_int_exact) simp_all
    then show ?thesis unfolding d xk by (simp add: Math_ceil_def)
  next
    case False
    define k where "k = n div c"
    define r where "r = n mod c"
    have nk: "n = c * k + r" by (simp add: k_def r_def)
    have r: "1 \<le> r" "r \<le> c - 1"
      using False c pos_mod_bound [of c n] pos_mod_sign [of c n] mod_eq_0_iff_dvd [of n c]
      unfolding r_def by linarith+
    have k0: "0 \<le> k" using n(1) c by (simp add: k_def pos_imp_zdiv_nonneg_iff)
    have xk: "?x = of_int k + of_int r / of_int c"
      using c by (simp add: nk add_divide_distrib)
    have "(1::rat) \<le> of_int r" "(of_int r :: rat) \<le> of_int c - 1"
      using r by (simp_all only: of_int_le_iff [symmetric] of_int_1 of_int_diff)
    then have rlo: "1 / of_int c \<le> (of_int r :: rat) / of_int c"
      and rhi: "(of_int r :: rat) / of_int c \<le> 1 - 1 / of_int c"
      using cpos by (simp_all add: divide_right_mono diff_divide_distrib [symmetric] field_simps)
    have kq: "(0::rat) \<le> of_int k" using k0 by simp
    have "(0::rat) < 1 / of_int c" using cpos by simp
    then have xpos: "0 < ?x" using xk kq rlo by linarith
    have "(of_int n :: rat) \<le> of_int (2 ^ 53)" using n(2) by (simp only: of_int_le_iff)
    then have "(of_int n :: rat) < of_int c * pow2 (K + 1)" using K by simp
    then have "?x < pow2 (K + 1)" using cpos by (simp add: pos_divide_less_eq mult.commute)
    then have LK: "floor_log2 ?x \<le> K" using xpos by (rule floor_log2_le [rotated])
    have "pow2 (- 1022) \<le> 1 / of_int c" using low cpos by (simp add: pos_le_divide_eq)
    also have "\<dots> \<le> ?x" using xk kq rlo by linarith
    finally have Llow: "- 1022 \<le> floor_log2 ?x" using xpos by (rule floor_log2_ge [rotated])
    have "\<bar>fl_pos ?x - ?x\<bar> \<le> pow2 (floor_log2 ?x - 53)"
      using xpos Llow by (rule fl_pos_error)
    also have "\<dots> \<le> pow2 (K - 53)" using LK by (intro pow2_mono) simp
    also have "\<dots> < 1 / of_int c" using small cpos by (simp add: pos_less_divide_eq mult.commute)
    finally have err: "\<bar>fl_pos ?x - ?x\<bar> < 1 / of_int c" .
    have lo: "of_int k < fl_pos ?x" using err xk rlo by linarith
    have hi: "fl_pos ?x < of_int k + 1" using err xk rhi by linarith
    have cv: "\<lceil>fl_pos ?x\<rceil> = k + 1" using lo hi by (intro ceiling_unique) simp_all
    have ic: "(0::rat) < 1 / of_int c" using cpos by simp
    have x1: "of_int k < ?x" using xk rlo ic by linarith
    have x2: "?x \<le> of_int k + 1" using xk rhi ic by linarith
    have cx: "\<lceil>?x\<rceil> = k + 1" using x1 x2 by (intro ceiling_unique) simp_all
    have "of_int k + 1 \<le> (2 ^ 53 + 1 :: rat)"
    proof -
      have "1 * k \<le> c * k" using c k0 by (intro mult_right_mono) simp_all
      then have "k \<le> n" using nk r by simp
      then have "k \<le> 2 ^ 53" using n(2) by simp
      then have "(of_int k :: rat) \<le> of_int (2 ^ 53)" by (simp only: of_int_le_iff)
      then show ?thesis by simp
    qed
    also have "\<dots> < pow2 1024" by (simp add: pow2_def)
    finally have "fl_pos ?x < pow2 1024" using hi by simp
    then have "fl ?x = Num (fl_pos ?x)" using xpos by (intro fl_pos_value)
    then show ?thesis unfolding d by (simp add: Math_ceil_def cv cx)
  qed
qed

lemma scenario_products:
  "js_times (Num 10) (Num 1) = Num 10"
  "js_times (Num 10) (Num 200) = Num 2000"
  "Math_ceil (js_divide (Num 2000) (Num 10000)) = Num 1"
  by code_simp+

lemma scenario_fee: "computePlatformFee b (Num 10) (Own (JNum 200)) = Inr (Num 1)"
  by (simp add: computePlatformFee_def ToNumber_def js_less_def scenario_products)

text \<open>
  Scenario E of the specification. An issuance whose effective constraints price the call
  at 10 cents with a platform fee of 200 basis points, for one unit and not on the
  per-minute model, carries \<open>cost_cents = 10\<close> and \<open>platform_fee_cents = 1\<close>.
\<close>

lemma issue_scenario:
  assumes pc: "get_property (ir_effective_constraints params) ''core:pricing:per_call_cents''
                 = Own (JNum 10)"
    and bp: "get_property (ir_effective_constraints params) ''core:platform_fee:basis_points''
                 = Own (JNum 200)"
    and m: "get_property (ir_effective_constraints params) ''core:pricing:model''
                 \<noteq> Own (JStr ''per_minute'')"
    and u: "ir_units params \<in> {None, Some (Num 1)}"
  shows "\<exists>att. issueConsumptionAttestation env params = Inr att
           \<and> cost_cents (consumption att) = Num 10
           \<and> platform_fee_cents (consumption att) = Num 1"
proof -
  let ?pr = "extractPricingConstraints (ir_effective_constraints params)"
  have model: "model ?pr \<noteq> Own (JStr ''per_minute'')"
    using m by (simp add: extractPricingConstraints_def)
  have cost: "computeCallCost env ?pr
                (Some (case ir_units params of None \<Rightarrow> Num 1 | Some u \<Rightarrow> u)) = Num 10"
    using pc u
    by (auto simp: computeCallCost_def extractPricingConstraints_def ToNumber_def scenario_products)
  have b: "basis_points (extractPlatformFeeConstraints (ir_effective_constraints params))
             = Own (JNum 200)"
    using bp by (simp add: extractPlatformFeeConstraints_def)
  show ?thesis
    by (simp add: issueConsumptionAttestation_def Let_def model cost b truthy_def scenario_fee
        AttestationPayload.defs)
qed

lemma issue_scenario_E:
  "\<exists>att. issueConsumptionAttestation example_env scenario_E_params = Inr att
     \<and> cost_cents (consumption att) = Num 10 \<and> platform_fee_cents (consumption att) = Num 1"
  by (rule issue_scenario)
     (simp_all add: scenario_E_params_def get_property_def plain_object_def js_get_def)

text \<open>
  The cases of the repository's tests of \<open>computePlatformFee\<close>.
\<close>

lemma repository_fee_examples:
  "computePlatformFee b (Num 1000) (Own (JNum 200)) = Inr (Num 20)"
  "computePlatformFee b (Num 101) (Own (JNum 200)) = Inr (Num 3)"
  "computePlatformFee b (Num 0) (Own (JNum 200)) = Inr (Num 0)"
  "computePlatformFee b (Num 1000) (Own (JNum 0)) = Inr (Num 0)"
  "computePlatformFee b (Num (- 100)) (Own (JNum 200)) = Inl NegativeCost"
  "computePlatformFee b (Num 100) (Own (JNum (- 200))) = Inl NegativeBasisPoints"
  by (simp add: computePlatformFee_def ToNumber_def js_less_def, code_simp)+

text \<open>
  Where the arithmetic of doubles is exact, the three cost functions are the formulas of the
  specification: for a non-negative cost and basis points whose product is at most \<open>2^53\<close>
  the platform fee is the ceiling of \<open>cost * basis_points / 10000\<close>; a per-call price times
  the units, and a per-minute price times the ceiling of \<open>duration_ms / 60000\<close>, are exact
  while the product is at most \<open>2^53\<close>.
\<close>

lemma computePlatformFee_exact:
  assumes "0 \<le> cost" and "0 \<le> bps" and "cost * bps \<le> 2 ^ 53"
  shows "computePlatformFee b (Num (of_int cost)) (Own (JNum bps))
           = Inr (Num (of_int \<lceil>(of_int (cost * bps) :: rat) / 10000\<rceil>))"
proof -
  have p: "0 \<le> cost * bps" using assms(1,2) by simp
  have "js_times (Num (of_int cost)) (Num (of_int bps)) = fl (of_int (cost * bps))"
    by (simp add: js_times_def)
  also have "\<dots> = Num (of_int (cost * bps))" using p assms(3) by (rule fl_int_exact)
  finally have t: "js_times (Num (of_int cost)) (Num (of_int bps)) = Num (of_int (cost * bps))" .
  have q: "Math_ceil (js_divide (Num (of_int (cost * bps))) (Num (of_int 10000)))
      = Num (of_int \<lceil>(of_int (cost * bps) :: rat) / of_int 10000\<rceil>)"
    using p assms(3) by (rule ceil_fl_quotient [where K = 39]) (simp_all add: pow2_def)
  show ?thesis
    using assms(1,2) t q by (simp add: computePlatformFee_def ToNumber_def js_less_def)
qed

lemma computeCallCost_exact:
  assumes "per_call_cents p = Own (JNum c)" and "0 \<le> c" and "0 \<le> n" and "c * n \<le> 2 ^ 53"
  shows "computeCallCost b p (Some (Num (of_int n))) = Num (of_int (c * n))"
proof -
  have "js_times (Num (of_int c)) (Num (of_int n)) = fl (of_int (c * n))"
    by (simp add: js_times_def)
  also have "\<dots> = Num (of_int (c * n))" using assms(2,3,4) by (intro fl_int_exact) simp_all
  finally show ?thesis using assms(1) by (simp add: computeCallCost_def ToNumber_def)
qed

lemma computeTimeCost_exact:
  assumes "per_minute_cents p = Own (JNum c)" and "0 \<le> c" and "0 \<le> d" and "d \<le> 2 ^ 53"
    and "c * \<lceil>(of_int d :: rat) / 60000\<rceil> \<le> 2 ^ 53"
  shows "computeTimeCost b p (Num (of_int d))
           = Num (of_int (c * \<lceil>(of_int d :: rat) / 60000\<rceil>))"
proof -
  let ?m = "\<lceil>(of_int d :: rat) / 60000\<rceil>"
  have m: "Math_ceil (js_divide (Num (of_int d)) (Num (of_int 60000)))
      = Num (of_int \<lceil>(of_int d :: rat) / of_int 60000\<rceil>)"
    using assms(3,4) by (rule ceil_fl_quotient [where K = 37]) (simp_all add: pow2_def)
  have "(0::rat) \<le> of_int d / 60000" using assms(3) by simp
  then have m0: "0 \<le> ?m" by (simp add: ceiling_mono [of 0, simplified])
  have "js_times (Num (of_int c)) (Num (of_int ?m)) = fl (of_int (c * ?m))"
    by (simp add: js_times_def)
  also have "\<dots> = Num (of_int (c * ?m))" using assms(2,5) m0 by (intro fl_int_exact) simp_all
  finally show ?thesis using assms(1) m by (simp add: computeTimeCost_def ToNumber_def Let_def)
qed

lemma large_products:
  "js_times (Num 900810009999) (Num 9999) = Num 9007199289980000"
  "js_divide (Num 9007199289980000) (Num 10000) = Num 900719928998"
  "js_times (Num 900700000001) (Num 10001) = Num 9007900700010000"
  "js_divide (Num 9007900700010000) (Num 10000) = Num 900790070001"
  "js_times (Num 9007199254740991) (Num 3) = Num 27021597764222972"
  by code_simp+

text \<open>
  C7 fails where a product exceeds \<open>2^53\<close>. For a cost of 900810009999 cents and 9999
  basis points the exact product 9007199289980001 is not a double; \<open>serviceCostCents *
  basisPoints\<close> is 9007199289980000, the quotient by 10000 is exactly 900719928998, and that
  is the fee returned, one less than the ceiling 900719928999 of the exact quotient. The
  same happens at 900700000001 cents and 10001 basis points (900790070001 for
  900790070002), and the per-call cost of 3 units at 9007199254740991 cents each is
  27021597764222972 instead of the product 27021597764222973.
\<close>

theorem cost_arithmetic_rounds_above_2_53:
  "computePlatformFee example_env (Num 900810009999) (Own (JNum 9999)) = Inr (Num 900719928998)
   \<and> \<lceil>(900810009999 * 9999 :: rat) / 10000\<rceil> = 900719928999
   \<and> computePlatformFee example_env (Num 900700000001) (Own (JNum 10001))
       = Inr (Num 900790070001)
   \<and> \<lceil>(900700000001 * 10001 :: rat) / 10000\<rceil> = 900790070002
   \<and> computeCallCost example_env
        (empty_pricing\<lparr>per_call_cents := Own (JNum 9007199254740991)\<rparr>) (Some (Num 3))
       = Num 27021597764222972
   \<and> (9007199254740991 * 3 :: int) = 27021597764222973"
proof -
  have 1: "computePlatformFee example_env (Num 900810009999) (Own (JNum 9999))
      = Inr (Num 900719928998)"
    by (simp add: computePlatformFee_def ToNumber_def js_less_def large_products Math_ceil_def)
  have 2: "computePlatformFee example_env (Num 900700000001) (Own (JNum 10001))
      = Inr (Num 900790070001)"
    by (simp add: computePlatformFee_def ToNumber_def js_less_def large_products Math_ceil_def)
  have 3: "computeCallCost example_env
        (empty_pricing\<lparr>per_call_cents := Own (JNum 9007199254740991)\<rparr>) (Some (Num 3))
       = Num 27021597764222972"
    by (simp add: computeCallCost_def ToNumber_def empty_pricing_def large_products)
  have 4: "\<lceil>(900810009999 * 9999 :: rat) / 10000\<rceil> = 900719928999"
    by (intro ceiling_unique) simp_all
  have 5: "\<lceil>(900700000001 * 10001 :: rat) / 10000\<rceil> = 900790070002"
    by (intro ceiling_unique) simp_all
  show ?thesis using 1 2 3 4 5 by simp
qed

lemma truncate_extend: "AttestationPayload.truncate (AttestationPayload.extend p m) = p"
  by (simp add: AttestationPayload.defs)

lemma issue_fields:
  assumes "issueConsumptionAttestation env params = Inr att"
  shows "AttestationPayload.truncate att =
           \<lparr>attestation_id = attestation_id att, att_gate_id = att_gate_id att,
            att_agent_id = att_agent_id att, att_passport_id = att_passport_id att,
            att_permission_key = att_permission_key att, catalog_version = catalog_version att,
            catalog_content_hash = catalog_content_hash att, request_nonce = request_nonce att,
            att_effective_constraints = att_effective_constraints att, consumption = consumption att\<rparr>"
    and "sig (proof' att) = ir_sign params (JSON_stringify env (AttestationPayload.truncate att))"
    and "request_nonce att = (if truthy_str (ir_request_nonce params) then ir_request_nonce params else None)"
    and "pricing (att_effective_constraints att) = Some (extractPricingConstraints (ir_effective_constraints params))"
    and "platform_fee (att_effective_constraints att) = Some (extractPlatformFeeConstraints (ir_effective_constraints params))"
    and "units (consumption att) = (case ir_units params of None \<Rightarrow> Num 1 | Some u \<Rightarrow> u)"
    and "duration_ms (consumption att) = ir_duration_ms params"
    and "cost_cents (consumption att) =
           (if model (extractPricingConstraints (ir_effective_constraints params)) = Own (JStr ''per_minute'')
               \<and> ir_duration_ms params \<noteq> None
            then computeTimeCost env (extractPricingConstraints (ir_effective_constraints params))
                   (the (ir_duration_ms params))
            else computeCallCost env (extractPricingConstraints (ir_effective_constraints params))
                   (Some (case ir_units params of None \<Rightarrow> Num 1 | Some u \<Rightarrow> u)))"
    and "(if truthy (basis_points (extractPlatformFeeConstraints (ir_effective_constraints params)))
          then computePlatformFee env (cost_cents (consumption att))
                 (basis_points (extractPlatformFeeConstraints (ir_effective_constraints params)))
          else Inr (Num 0)) = Inr (platform_fee_cents (consumption att))"
  using assms
  by (auto simp: issueConsumptionAttestation_def Let_def AttestationPayload.defs
      split: sum.splits if_splits)

lemma zero_minutes: "Math_ceil (js_divide (Num 0) (Num 60000)) = Num 0"
  by code_simp

lemma times_zero: "js_times (Num 10) (Num 0) = Num 0" "js_times (Num 10) (Num 1) = Num 10"
  by code_simp+

text \<open>
  Receipt round trip away from a zero duration on the per-minute model: when the issuance
  succeeds with a cost and a fee that are numbers (not \<open>NaN\<close>), the verification callback
  accepts exactly the signatures of the signing callback, and the expected nonce is the
  request nonce of the issuance, the receipt verifies as valid.
\<close>

lemma receipt_roundtrip_elsewhere:
  assumes iss: "issueConsumptionAttestation env params = Inr att"
    and vf: "\<forall>payload s. vf payload s key = (s = ir_sign params payload)"
    and nz: "\<not> (model (extractPricingConstraints (ir_effective_constraints params))
                  = Own (JStr ''per_minute'')
               \<and> (\<exists>d. ir_duration_ms params = Some d \<and> \<not> truthy_number d))"
    and nan: "cost_cents (consumption att) \<noteq> NaN" "platform_fee_cents (consumption att) \<noteq> NaN"
  shows "verifyConsumptionAttestation env
           \<lparr>attestation = att, expected_nonce = ir_request_nonce params,
            gate_public_key = key, verify = vf\<rparr>
         = Inr \<lparr>valid = True, error = None\<rparr>"
proof -
  note f = issue_fields [OF iss]
  let ?pr = "extractPricingConstraints (ir_effective_constraints params)"
  have nonce: "\<not> (truthy_str (ir_request_nonce params) \<and> request_nonce att \<noteq> ir_request_nonce params)"
    by (simp add: f(3))
  have sigok: "vf (JSON_stringify env (AttestationPayload.truncate att)) (sig (proof' att)) key"
    using vf f(2) by simp
  have dur: "(model ?pr = Own (JStr ''per_minute'')
              \<and> (case duration_ms (consumption att) of None \<Rightarrow> False | Some d \<Rightarrow> truthy_number d))
           = (model ?pr = Own (JStr ''per_minute'') \<and> ir_duration_ms params \<noteq> None)"
    using nz by (auto simp: f(7) split: option.splits)
  have cost: "cost_cents (consumption att) =
      (if model ?pr = Own (JStr ''per_minute'')
          \<and> (case duration_ms (consumption att) of None \<Rightarrow> False | Some d \<Rightarrow> truthy_number d)
       then computeTimeCost env ?pr (the (duration_ms (consumption att)))
       else computeCallCost env ?pr (Some (units (consumption att))))"
    unfolding dur by (auto simp: f(8) f(7) f(6))
  have ceq: "strict_equal (cost_cents (consumption att))
      (if model ?pr = Own (JStr ''per_minute'')
          \<and> (case duration_ms (consumption att) of None \<Rightarrow> False | Some d \<Rightarrow> truthy_number d)
       then computeTimeCost env ?pr (the (duration_ms (consumption att)))
       else computeCallCost env ?pr (Some (units (consumption att))))"
    using cost nan(1) by (simp add: strict_equal_def)
  have feq: "\<And>fee. fee = platform_fee_cents (consumption att)
      \<Longrightarrow> strict_equal (platform_fee_cents (consumption att)) fee"
    using nan(2) by (simp add: strict_equal_def)
  show ?thesis
    unfolding verifyConsumptionAttestation_def
    using nonce sigok ceq cost [symmetric] f(9) feq
    by (auto simp: Let_def f(4) f(5) split: if_splits)
qed

lemma receipt_roundtrip_zero_duration:
  assumes iss: "issueConsumptionAttestation env params = Inr att"
    and vf: "\<forall>payload s. vf payload s key = (s = ir_sign params payload)"
    and pm: "model (extractPricingConstraints (ir_effective_constraints params))
               = Own (JStr ''per_minute'')"
    and z: "ir_duration_ms params = Some (Num 0)"
    and t: "computeTimeCost env (extractPricingConstraints (ir_effective_constraints params)) (Num 0)
              = Num 0"
    and c: "computeCallCost env (extractPricingConstraints (ir_effective_constraints params))
              (Some (case ir_units params of None \<Rightarrow> Num 1 | Some u \<Rightarrow> u)) = c"
      "\<not> strict_equal (Num 0) c"
  shows "verifyConsumptionAttestation env
           \<lparr>attestation = att, expected_nonce = ir_request_nonce params,
            gate_public_key = key, verify = vf\<rparr>
         = Inr \<lparr>valid = False, error = Some (CostMismatch c (Num 0))\<rparr>"
proof -
  note f = issue_fields [OF iss]
  have nonce: "\<not> (truthy_str (ir_request_nonce params) \<and> request_nonce att \<noteq> ir_request_nonce params)"
    by (simp add: f(3))
  have sigok: "vf (JSON_stringify env (AttestationPayload.truncate att)) (sig (proof' att)) key"
    using vf f(2) by simp
  have cost: "cost_cents (consumption att) = Num 0"
    by (simp add: f(8) pm z t)
  show ?thesis
    unfolding verifyConsumptionAttestation_def
    using nonce sigok c
    by (simp add: Let_def f(4) f(5) f(6) f(7) z pm truthy_number_def cost)
qed

text \<open>
  C6 at the failing input. Pricing model \<open>per_minute\<close> with a per-call price of 10 cents,
  default units and a measured duration of 0 ms: the issuer tests \<open>duration_ms !== undefined\<close>
  and bills the time cost 0; the verifier tests the truthiness of \<open>duration_ms\<close>, takes
  the per-call branch, expects 10 and rejects the receipt the gate has just issued.
\<close>

theorem receipt_roundtrip_fails_at_zero_duration:
  "\<exists>att. issueConsumptionAttestation example_env zero_duration_params = Inr att
     \<and> cost_cents (consumption att) = Num 0
     \<and> verifyConsumptionAttestation example_env
          \<lparr>attestation = att, expected_nonce = ir_request_nonce zero_duration_params,
           gate_public_key = ''gate_key'',
           verify = (\<lambda>payload s k. s = ir_sign zero_duration_params payload)\<rparr>
        = Inr \<lparr>valid = False, error = Some (CostMismatch (Num 10) (Num 0))\<rparr>"
proof -
  have pr: "extractPricingConstraints (ir_effective_constraints zero_duration_params)
      = empty_pricing\<lparr>per_call_cents := Own (JNum 10), model := Own (JStr ''per_minute'')\<rparr>"
    by (simp add: zero_duration_params_def scenario_E_params_def extractPricingConstraints_def
        get_property_def plain_object_def js_get_def Object_prototype_names_def empty_pricing_def)
  have fe: "extractPlatformFeeConstraints (ir_effective_constraints zero_duration_params)
      = empty_platform_fee"
    by (simp add: zero_duration_params_def scenario_E_params_def extractPlatformFeeConstraints_def
        get_property_def plain_object_def js_get_def Object_prototype_names_def
        empty_platform_fee_def)
  have d: "ir_duration_ms zero_duration_params = Some (Num 0)" "ir_units zero_duration_params = None"
    by (simp_all add: zero_duration_params_def scenario_E_params_def)
  have tc: "computeTimeCost example_env
      (extractPricingConstraints (ir_effective_constraints zero_duration_params)) (Num 0) = Num 0"
    by (simp add: pr computeTimeCost_def empty_pricing_def)
  obtain att where iss: "issueConsumptionAttestation example_env zero_duration_params = Inr att"
    by (simp add: issueConsumptionAttestation_def Let_def pr fe d truthy_def empty_platform_fee_def)
  have cost: "cost_cents (consumption att) = Num 0"
    using issue_fields(8) [OF iss] by (simp add: pr d tc [unfolded pr])
  have "verifyConsumptionAttestation example_env
          \<lparr>attestation = att, expected_nonce = ir_request_nonce zero_duration_params,
           gate_public_key = ''gate_key'',
           verify = (\<lambda>payload s k. s = ir_sign zero_duration_params payload)\<rparr>
        = Inr \<lparr>valid = False, error = Some (CostMismatch (Num 10) (Num 0))\<rparr>"
    by (rule receipt_roundtrip_zero_duration [OF iss])
       (simp_all add: pr d computeCallCost_def computeTimeCost_def empty_pricing_def ToNumber_def
          times_zero strict_equal_def)
  with iss cost show ?thesis by blast
qed

section \<open>Properties of the hot path\<close>

lemma verifySignatureSync_returns: "\<exists>b. verifySignatureSync plat p k = Inr b"
  by (cases "verifySignatureSync_try plat p k") (auto simp: verifySignatureSync_def try_catch_def)

text \<open>
  The signature check returns a boolean whatever its \<open>try\<close> block does: an exception of the
  serializer, of \<open>hexToBytes\<close> or of \<open>ed.verify\<close> becomes \<open>false\<close>.
\<close>

lemma verifySignatureSync_absorbs:
  "verifySignatureSync_try plat p k = Inl e \<Longrightarrow> verifySignatureSync plat p k = Inr False"
  by (simp add: verifySignatureSync_def try_catch_def)

lemma verifySignatureSync_cases:
  obtains "verifySignatureSync plat p k = Inr True" | "verifySignatureSync plat p k = Inr False"
  using verifySignatureSync_returns [of plat p k] by (cases "verifySignatureSync plat p k") auto

lemma verifySignatureSync_inherited_key: "verifySignatureSync plat p Inherited = Inr False"
  by (simp add: verifySignatureSync_def verifySignatureSync_try_def try_catch_def split: sum.splits)

lemma js_get_not_inherited: "k \<notin> set Object_prototype_names \<Longrightarrow> js_get obj k \<noteq> Inherited"
  by (simp add: js_get_def split: option.splits)

lemmas verify_splits =
  option.splits sum.splits ResolvedCatalog.splits property.splits if_splits

lemmas call_defs =
  mergeConstraints_call_def validateConstraints_call_def passport_constraints_of_def

text \<open>
  Both versions of the hot path return a result whenever the action is not the name of a
  member of \<open>Object.prototype\<close>: the lookups by action then find a record's own entry or
  nothing.
\<close>

lemma verifyLocally_v1_0_returns:
  assumes "action params \<notin> set Object_prototype_names"
  shows "\<exists>r rl'. verifyLocally_v1_0 plat clock rl params = Inr (r, rl')"
proof (cases "passport params")
  case None
  then show ?thesis by (simp add: verifyLocally_v1_0_def)
next
  case (Some p)
  have ni: "js_get (claimsByKey p) (action params) \<noteq> Inherited"
    using assms by (rule js_get_not_inherited)
  show ?thesis
    using Some ni
    by (cases rule: verifySignatureSync_cases
          [of plat p "js_get (issuerKeys params) (issuer_id p)"])
       (auto simp: verifyLocally_v1_0_def Let_def call_defs
          split: ResolvedCatalog.splits property.splits)
qed

lemma verifyLocally_returns:
  assumes "action params \<notin> set Object_prototype_names"
  shows "\<exists>r st'. verifyLocally plat sdk clock st params = Inr (r, st')"
proof (cases "passport params")
  case None
  then show ?thesis by (simp add: verifyLocally_def Let_def)
next
  case (Some p)
  have ni: "js_get (claimsByKey p) (action params) \<noteq> Inherited"
    using assms by (rule js_get_not_inherited)
  show ?thesis
    using Some ni
    by (cases rule: verifySignatureSync_cases
          [of plat p "js_get (issuerKeys params) (issuer_id p)"])
       (auto simp: verifyLocally_def Let_def call_defs
          split: ResolvedCatalog.splits property.splits)
qed

text \<open>The four credential checks of the presented branch, in pipeline order.\<close>

lemma verifyLocally_unknown_issuer:
  assumes "passport params = Some p"
    and "falsy_key (js_get (issuerKeys params) (issuer_id p))"
  shows "verifyLocally plat sdk clock st params
       = Inr (deny ISSUER_NOT_ALLOWED (''Unknown issuer: '' @ issuer_id p) block_only, st)"
  using assms by (simp add: verifyLocally_def Let_def)

lemma verifyLocally_invalid_signature:
  assumes "passport params = Some p" and "\<not> falsy_key (js_get (issuerKeys params) (issuer_id p))"
    and "\<not> skipSignatureVerification params"
    and "verifySignatureSync plat p (js_get (issuerKeys params) (issuer_id p)) = Inr False"
  shows "verifyLocally plat sdk clock st params
       = Inr (deny INVALID_SIGNATURE ''Passport signature invalid'' block_only, st)"
  using assms by (simp add: verifyLocally_def Let_def)

lemma verifyLocally_expired:
  assumes "passport params = Some p" and "\<not> falsy_key (js_get (issuerKeys params) (issuer_id p))"
    and "skipSignatureVerification params
         \<or> verifySignatureSync plat p (js_get (issuerKeys params) (issuer_id p)) = Inr True"
    and "date_before plat (expires_at p) (t_expiry clock)"
  shows "verifyLocally plat sdk clock st params
       = Inr (deny PASSPORT_EXPIRED ''Passport has expired'' block_only, st)"
  using assms by (auto simp: verifyLocally_def Let_def)

lemma verifyLocally_revoked:
  assumes "passport params = Some p" and "\<not> falsy_key (js_get (issuerKeys params) (issuer_id p))"
    and "skipSignatureVerification params
         \<or> verifySignatureSync plat p (js_get (issuerKeys params) (issuer_id p)) = Inr True"
    and "\<not> date_before plat (expires_at p) (t_expiry clock)"
    and "passport_id p \<in> revocationList params"
  shows "verifyLocally plat sdk clock st params
       = Inr (deny PASSPORT_REVOKED ''Passport has been revoked'' block_only, st)"
  using assms by (auto simp: verifyLocally_def Let_def)

lemma verifyLocally_ignores_anonymous:
  assumes "passport params = Some p"
  shows "verifyLocally plat sdk clock st (params\<lparr>anonymousPolicy := a, sourceId := s\<rparr>)
       = verifyLocally plat sdk clock st params"
  using assms
  by (simp add: verifyLocally_def Let_def
      cong del: if_weak_cong option.case_cong_weak sum.case_cong_weak ResolvedCatalog.case_cong_weak)

text \<open>
  The four credential checks of version 1.2.0, in terms of what the hot path reads. A
  presented credential is denied, with the state of both limiters untouched, whenever the
  read \<open>issuerKeys[passport.issuer_id]\<close> is falsy, or its signature check runs
  (\<open>skipSignatureVerification\<close> is not set) and fails, or it is expired, or it is revoked;
  the denial code is that of the first of these checks that fails, in pipeline order. The
  result for a presented credential does not depend on the anonymous access policy or the
  source identifier: the anonymous branch is never consulted.
\<close>

lemma credential_checks_in_order:
  assumes "passport params = Some p"
    and "issuerKey = js_get (issuerKeys params) (issuer_id p)"
    and "unknown_issuer = falsy_key issuerKey"
    and "bad_signature = (\<not> skipSignatureVerification params
            \<and> verifySignatureSync plat p issuerKey = Inr False)"
    and "expired = date_before plat (expires_at p) (t_expiry clock)"
    and "revoked = (passport_id p \<in> revocationList params)"
  shows "(unknown_issuer \<or> bad_signature \<or> expired \<or> revoked \<longrightarrow>
           (\<exists>r m. verifyLocally plat sdk clock st params = Inr (r, st)
              \<and> r = deny (if unknown_issuer then ISSUER_NOT_ALLOWED
                           else if bad_signature then INVALID_SIGNATURE
                           else if expired then PASSPORT_EXPIRED
                           else PASSPORT_REVOKED) m block_only
              \<and> \<not> allowed r \<and> decision r = Deny))
       \<and> verifyLocally plat sdk clock st (params\<lparr>anonymousPolicy := policy, sourceId := source\<rparr>)
           = verifyLocally plat sdk clock st params"
proof (intro conjI impI)
  show "verifyLocally plat sdk clock st (params\<lparr>anonymousPolicy := policy, sourceId := source\<rparr>)
           = verifyLocally plat sdk clock st params"
    by (rule verifyLocally_ignores_anonymous [OF assms(1)])
next
  assume fail: "unknown_issuer \<or> bad_signature \<or> expired \<or> revoked"
  have shape: "\<And>c m. \<not> allowed (deny c m block_only) \<and> decision (deny c m block_only) = Deny"
    by (simp add: deny_def)
  show "\<exists>r m. verifyLocally plat sdk clock st params = Inr (r, st)
              \<and> r = deny (if unknown_issuer then ISSUER_NOT_ALLOWED
                           else if bad_signature then INVALID_SIGNATURE
                           else if expired then PASSPORT_EXPIRED
                           else PASSPORT_REVOKED) m block_only
              \<and> \<not> allowed r \<and> decision r = Deny"
  proof (cases unknown_issuer)
    case True
    then show ?thesis
      using verifyLocally_unknown_issuer [OF assms(1), of plat sdk clock st] assms(2,3) shape by auto
  next
    case False
    then have k: "\<not> falsy_key (js_get (issuerKeys params) (issuer_id p))"
      using assms(2,3) by simp
    show ?thesis
    proof (cases bad_signature)
      case True
      then have "\<not> skipSignatureVerification params"
          "verifySignatureSync plat p (js_get (issuerKeys params) (issuer_id p)) = Inr False"
        using assms(2,4) by auto
      then show ?thesis
        using verifyLocally_invalid_signature [OF assms(1) k, of plat sdk clock st] False True shape
        by auto
    next
      case nb: False
      have ok: "skipSignatureVerification params
          \<or> verifySignatureSync plat p (js_get (issuerKeys params) (issuer_id p)) = Inr True"
        using nb assms(2,4)
        by (cases rule: verifySignatureSync_cases
              [of plat p "js_get (issuerKeys params) (issuer_id p)"]) auto
      show ?thesis
      proof (cases expired)
        case True
        then show ?thesis
          using verifyLocally_expired [OF assms(1) k ok, of clock sdk st] False nb assms(5) shape
          by auto
      next
        case ne: False
        then have "revoked" using fail False nb by simp
        then show ?thesis
          using verifyLocally_revoked [OF assms(1) k ok, of clock sdk st] False nb ne assms(5,6) shape
          by auto
      qed
    qed
  qed
qed

lemma deny_fields:
  "allowed (deny c m x) = False" "decision (deny c m x) = Deny"
  "denial (deny c m x) = Some \<lparr>code = c, message = m,
      upgrade_template = (case x of None \<Rightarrow> None | Some e \<Rightarrow> x_upgrade_template e)\<rparr>"
  by (simp_all add: deny_def)

lemma deny_v1_0_fields:
  "allowed_v1_0 (deny_v1_0 c m t) = False"
  "denial_v1_0 (deny_v1_0 c m t) = Some \<lparr>code_v1_0 = c, message_v1_0 = m, upgrade_template_v1_0 = t\<rparr>"
  by (simp_all add: deny_v1_0_def)

lemma expired_code_only_when_before:
  assumes "verifyLocally plat sdk clock st params = Inr (r, st')"
    and "map_option code (denial r) = Some PASSPORT_EXPIRED"
  shows "\<exists>p. passport params = Some p \<and> date_before plat (expires_at p) (t_expiry clock)"
  using assms
  by (auto simp: verifyLocally_def Let_def deny_fields call_defs split: verify_splits)

lemma expired_code_only_when_before_v1_0:
  assumes "verifyLocally_v1_0 plat clock rl params = Inr (r, rl')"
    and "map_option code_v1_0 (denial_v1_0 r) = Some ''PASSPORT_EXPIRED''"
  shows "\<exists>p. passport params = Some p \<and> date_before plat (expires_at p) (t_expiry clock)"
  using assms
  by (auto simp: verifyLocally_v1_0_def Let_def deny_v1_0_fields call_defs split: verify_splits)

lemma verifyLocally_v1_0_expired:
  assumes "passport params = Some p" and "\<not> falsy_key (js_get (issuerKeys params) (issuer_id p))"
    and "skipSignatureVerification params
         \<or> verifySignatureSync plat p (js_get (issuerKeys params) (issuer_id p)) = Inr True"
    and "date_before plat (expires_at p) (t_expiry clock)"
  shows "verifyLocally_v1_0 plat clock rl params
       = Inr (deny_v1_0 ''PASSPORT_EXPIRED'' ''Passport has expired'' None, rl)"
  using assms by (auto simp: verifyLocally_v1_0_def Let_def)

lemma frame_v1_2:
  assumes "verifyLocally plat sdk clock st params = Inr (r, st')"
  shows "(\<not> allowed r \<longrightarrow> rateLimiter st' = rateLimiter st)
       \<and> (allowed r \<and> passport params = None \<longrightarrow> rateLimiter st' = rateLimiter st)
       \<and> (allowed r \<and> passport params = Some p \<longrightarrow>
            rateLimiter st' = increment (rateLimiter st) (t_increment clock) (action params)
                                (Some (passport_id p)))"
  using assms
  by (auto simp: verifyLocally_def Let_def deny_fields call_defs split: verify_splits)

lemma frame_v1_0:
  assumes "verifyLocally_v1_0 plat clock rl params = Inr (r, rl')"
  shows "(\<not> allowed_v1_0 r \<longrightarrow> rl' = rl)
       \<and> (allowed_v1_0 r \<longrightarrow>
            (\<exists>p. passport params = Some p
               \<and> rl' = increment rl (t_increment clock) (action params) (Some (passport_id p))))"
  using assms
  by (auto simp: verifyLocally_v1_0_def Let_def deny_v1_0_fields call_defs split: verify_splits)

lemma permit_shape:
  assumes "verifyLocally plat sdk clock st params = Inr (r, st')" and "allowed r"
  shows "r = (case passport params of
                None \<Rightarrow> anonymous_permit
              | Some p \<Rightarrow>
                  \<lparr>allowed = True, decision = Permit, constraint_decision = Some PERMIT,
                   reason_codes = None, obligations = None, denial = None,
                   effective_constraints =
                     (case mergeConstraints_call CONSTRAINT_TYPES
                             (catalog_constraints_of
                                (js_get (permissionsByKey
                                   (case resolveCatalogVersion (catalog params) (Some p) of
                                      Resolved v \<Rightarrow> v | Deprecated \<Rightarrow> current (catalog params)))
                                   (action params)))
                             (passport_constraints_of (js_get (claimsByKey p) (action params))) of
                        Inr merged \<Rightarrow> Some merged | Inl e \<Rightarrow> None),
                   confident = True\<rparr>)"
  using assms
  by (auto simp: verifyLocally_def Let_def deny_fields anonymous_permit_def split: verify_splits)

lemma permit_shape_v1_0:
  assumes "verifyLocally_v1_0 plat clock rl params = Inr (r, rl')" and "allowed_v1_0 r"
  shows "\<exists>p. passport params = Some p \<and>
           r = \<lparr>allowed_v1_0 = True, denial_v1_0 = None,
                effective_constraints_v1_0 =
                  (case mergeConstraints_call CONSTRAINT_TYPES_v1_0
                          (catalog_constraints_of
                             (js_get (permissionsByKey
                                (case resolveCatalogVersion (catalog params) (Some p) of
                                   Resolved v \<Rightarrow> v | Deprecated \<Rightarrow> current (catalog params)))
                                (action params)))
                          (passport_constraints_of (js_get (claimsByKey p) (action params))) of
                     Inr merged \<Rightarrow> Some merged | Inl e \<Rightarrow> None),
                confident_v1_0 = True\<rparr>"
  using assms
  by (auto simp: verifyLocally_v1_0_def Let_def deny_v1_0_fields split: verify_splits)

lemma increment_effect:
  "(limits rl a = None \<longrightarrow> increment rl t a pid = rl)
   \<and> (limits rl a = Some l \<longrightarrow>
        limits (increment rl t a pid) = limits rl
        \<and> (\<forall>k. k \<noteq> getBucketKey a pid \<longrightarrow> buckets (increment rl t a pid) k = buckets rl k)
        \<and> buckets (increment rl t a pid) (getBucketKey a pid)
            = Some (case buckets rl (getBucketKey a pid) of
                      None \<Rightarrow> \<lparr>count = 1, resetAt = t + windowMs l\<rparr>
                    | Some b \<Rightarrow>
                        if resetAt b \<le> t then \<lparr>count = 1, resetAt = t + windowMs l\<rparr>
                        else b\<lparr>count := count b + 1\<rparr>))"
  by (auto simp: increment_def Let_def split: option.splits)

lemmas fixture_defs =
  example_params_def example_passport_def accepting_platform_def rejecting_platform_def
  example_catalog_def search_entry_def search_claim_def example_sdk_def example_state_def
  example_limiter_def example_policy_def search_permit_def anonymous_permit_def
  early_clock_def boundary_clock_def late_clock_def

lemmas run_defs =
  verifyLocally_def verifyLocally_v1_0_def verifySignatureSync_def verifySignatureSync_try_def
  try_catch_def hexToBytes_def date_before_def resolveCatalogVersion_def mergeConstraints_def
  validateConstraints_def check_def setLimit_def getBucketKey_def Let_def
  js_get_def set_property_def get_property_def plain_object_def falsy_key_def
  Object_prototype_names_def catalog_constraints_of_def number_or_undefined_def
  passport_constraints_of_def default_template_of_def mergeConstraints_call_def
  validateConstraints_call_def

lemma run_issuer_key:
  "js_get (issuerKeys example_params) (issuer_id example_passport) = Own ''c3d4''"
  by (simp add: fixture_defs js_get_def)

lemma run_accepts_signature:
  "verifySignatureSync accepting_platform example_passport (Own ''c3d4'') = Inr True"
  by (simp add: fixture_defs run_defs)

lemma run_rejects_signature:
  "verifySignatureSync rejecting_platform example_passport (Own ''c3d4'') = Inr False"
  by (simp add: fixture_defs run_defs)

lemma run_skip:
  "verifyLocally rejecting_platform example_sdk early_clock example_state
      (example_params\<lparr>skipSignatureVerification := True\<rparr>)
   = Inr (search_permit,
          example_state\<lparr>rateLimiter :=
            increment example_limiter 1893455999000 ''flights:search'' (Some ''passport_test_123'')\<rparr>)"
  by (simp add: fixture_defs run_defs)

lemma run_boundary:
  "verifyLocally accepting_platform example_sdk boundary_clock example_state example_params
   = Inr (search_permit,
          example_state\<lparr>rateLimiter :=
            increment example_limiter 1893456000000 ''flights:search'' (Some ''passport_test_123'')\<rparr>)"
  by (simp add: fixture_defs run_defs)

lemma run_boundary_v1_0:
  "verifyLocally_v1_0 accepting_platform boundary_clock example_limiter
      (VerifyLocallyParams_v1_0.truncate example_params)
   = Inr (\<lparr>allowed_v1_0 = True, denial_v1_0 = None, effective_constraints_v1_0 = Some (plain_object []),
           confident_v1_0 = True\<rparr>,
          increment example_limiter 1893456000000 ''flights:search'' (Some ''passport_test_123''))"
  by (simp add: fixture_defs run_defs VerifyLocallyParams_v1_0.defs VerifyLocallyParams.defs)

lemma run_early:
  "verifyLocally accepting_platform example_sdk early_clock example_state example_params
   = Inr (search_permit,
          example_state\<lparr>rateLimiter :=
            increment example_limiter 1893455999000 ''flights:search'' (Some ''passport_test_123'')\<rparr>)"
  by (simp add: fixture_defs run_defs)

lemma run_anonymous:
  "verifyLocally accepting_platform example_sdk early_clock example_state
      (example_params\<lparr>passport := None, action := ''data:read''\<rparr>)
   = Inr (anonymous_permit, example_state)"
  by (simp add: fixture_defs run_defs)

text \<open>
  \<open>hexToBytes\<close> on a text of odd length, with the prefix \<open>0x\<close>, and on characters that
  are not hexadecimal digits.
\<close>

lemma run_odd_length_hex:
  "hexToBytes ''a1b2c'' = [0xa1, 0xb2]" "hexToBytes ''0xa1b2'' = [0xa1, 0xb2]"
  "hexToBytes ''zz-1'' = [0, 0xff]"
  by (simp_all add: hexToBytes_def parseInt16_def ToUint8_def is_hex_digit_def hex_digit_val_def
      is_space_def strip_sign_def upt_rec Let_def)

lemma run_unknown_issuer:
  "verifyLocally accepting_platform example_sdk early_clock example_state
      (example_params\<lparr>passport := Some (example_passport\<lparr>issuer_id := ''issuer_other''\<rparr>)\<rparr>)
   = Inr (deny ISSUER_NOT_ALLOWED ''Unknown issuer: issuer_other'' block_only, example_state)"
  by (simp add: fixture_defs run_defs)

lemma run_constructor_issuer:
  "verifyLocally accepting_platform example_sdk early_clock example_state
      (example_params\<lparr>passport := Some (example_passport\<lparr>issuer_id := ''constructor''\<rparr>)\<rparr>)
   = Inr (deny INVALID_SIGNATURE ''Passport signature invalid'' block_only, example_state)"
  by (simp add: fixture_defs run_defs)

lemma run_constructor_issuer_v1_0:
  "verifyLocally_v1_0 accepting_platform early_clock example_limiter
      (VerifyLocallyParams_v1_0.truncate
         (example_params\<lparr>passport := Some (example_passport\<lparr>issuer_id := ''constructor''\<rparr>)\<rparr>))
   = Inr (deny_v1_0 ''INVALID_SIGNATURE'' ''Passport signature invalid'' None, example_limiter)"
  by (simp add: fixture_defs run_defs VerifyLocallyParams_v1_0.defs VerifyLocallyParams.defs)

text \<open>
  With \<open>skipSignatureVerification\<close> set, the credential of the unknown issuer
  \<open>constructor\<close> passes the issuer check and is permitted.
\<close>

lemma run_constructor_issuer_skip:
  "verifyLocally accepting_platform example_sdk early_clock example_state
      (example_params\<lparr>passport := Some (example_passport\<lparr>issuer_id := ''constructor''\<rparr>),
                      skipSignatureVerification := True\<rparr>)
   = Inr (search_permit,
          example_state\<lparr>rateLimiter :=
            increment example_limiter 1893455999000 ''flights:search'' (Some ''passport_test_123'')\<rparr>)"
  by (simp add: fixture_defs run_defs)

lemma run_inherited_action:
  "js_get (permissionsByKey (current example_catalog)) ''constructor'' = Inherited"
  "js_get (claimsByKey example_passport) ''constructor'' = Inherited"
  by (simp_all add: fixture_defs js_get_def Object_prototype_names_def)

lemma run_constructor:
  "verifyLocally accepting_platform example_sdk early_clock example_state
      (example_params\<lparr>action := ''constructor''\<rparr>) = Inl TypeError"
  by (simp add: fixture_defs run_defs)

lemma run_constructor_v1_0:
  "verifyLocally_v1_0 accepting_platform early_clock example_limiter
      (VerifyLocallyParams_v1_0.truncate (example_params\<lparr>action := ''constructor''\<rparr>))
   = Inl TypeError"
  by (simp add: fixture_defs run_defs VerifyLocallyParams_v1_0.defs VerifyLocallyParams.defs)

text \<open>
  C2 fails for an unknown issuer whose identifier names a member of \<open>Object.prototype\<close>.
  The issuer-key record is a plain object and has no key for the issuer \<open>constructor\<close>;
  the read \<open>issuerKeys['constructor']\<close> finds the inherited member, which is truthy, so
  the unknown-issuer check does not deny. The signature check then throws on a key that
  is not a string, the exception becomes \<open>false\<close>, and the denial is \<open>INVALID_SIGNATURE\<close>
  and not \<open>ISSUER_NOT_ALLOWED\<close>, the code that every other unknown issuer gets.
\<close>

theorem unknown_issuer_reported_as_invalid_signature:
  "passport (example_params\<lparr>passport := Some (example_passport\<lparr>issuer_id := ''constructor''\<rparr>)\<rparr>)
     = Some (example_passport\<lparr>issuer_id := ''constructor''\<rparr>)
   \<and> issuerKeys example_params ''constructor'' = None
   \<and> js_get (issuerKeys example_params) ''constructor'' = Inherited
   \<and> \<not> skipSignatureVerification example_params
   \<and> verifyLocally accepting_platform example_sdk early_clock example_state
        (example_params\<lparr>passport := Some (example_passport\<lparr>issuer_id := ''constructor''\<rparr>)\<rparr>)
      = Inr (deny INVALID_SIGNATURE ''Passport signature invalid'' block_only, example_state)
   \<and> map_option code (denial (deny INVALID_SIGNATURE ''Passport signature invalid'' block_only))
      \<noteq> Some ISSUER_NOT_ALLOWED
   \<and> verifyLocally accepting_platform example_sdk early_clock example_state
        (example_params\<lparr>passport := Some (example_passport\<lparr>issuer_id := ''issuer_other''\<rparr>)\<rparr>)
      = Inr (deny ISSUER_NOT_ALLOWED ''Unknown issuer: issuer_other'' block_only, example_state)"
  using run_constructor_issuer run_unknown_issuer
  by (simp add: example_params_def js_get_def Object_prototype_names_def deny_fields)

text \<open>
  C3, as the code has it (both versions). The expiry step denies when \<open>expires_at\<close> is
  strictly before the clock reading: past the issuer and signature checks, a credential
  with \<open>expires_at < now\<close> is denied with \<open>PASSPORT_EXPIRED\<close>; a credential with
  \<open>now \<le> expires_at\<close>, in particular \<open>expires_at = now\<close>, is never denied with that code. The
  condition to pass the step is \<open>now \<le> expires_at\<close>.
\<close>

theorem expiry_is_strict:
  "(passport params = Some p \<and> \<not> falsy_key (js_get (issuerKeys params) (issuer_id p))
      \<and> (skipSignatureVerification params
           \<or> verifySignatureSync plat p (js_get (issuerKeys params) (issuer_id p)) = Inr True)
      \<and> Date_parse plat (expires_at p) = Some t \<and> t < t_expiry clock
     \<longrightarrow> verifyLocally plat sdk clock st params
           = Inr (deny PASSPORT_EXPIRED ''Passport has expired'' block_only, st)
         \<and> verifyLocally_v1_0 plat clock rl (VerifyLocallyParams_v1_0.truncate params)
           = Inr (deny_v1_0 ''PASSPORT_EXPIRED'' ''Passport has expired'' None, rl))
   \<and> (passport params = Some p \<and> Date_parse plat (expires_at p) = Some t \<and> t_expiry clock \<le> t
        \<and> verifyLocally plat sdk clock st params = Inr (r, st')
     \<longrightarrow> map_option code (denial r) \<noteq> Some PASSPORT_EXPIRED)
   \<and> (passport params = Some p \<and> Date_parse plat (expires_at p) = Some t \<and> t_expiry clock \<le> t
        \<and> verifyLocally_v1_0 plat clock rl (VerifyLocallyParams_v1_0.truncate params) = Inr (r0, rl')
     \<longrightarrow> map_option code_v1_0 (denial_v1_0 r0) \<noteq> Some ''PASSPORT_EXPIRED'')"
proof (intro conjI impI)
  assume a: "passport params = Some p \<and> \<not> falsy_key (js_get (issuerKeys params) (issuer_id p))
      \<and> (skipSignatureVerification params
           \<or> verifySignatureSync plat p (js_get (issuerKeys params) (issuer_id p)) = Inr True)
      \<and> Date_parse plat (expires_at p) = Some t \<and> t < t_expiry clock"
  then have d: "date_before plat (expires_at p) (t_expiry clock)"
    by (simp add: date_before_def)
  show "verifyLocally plat sdk clock st params
           = Inr (deny PASSPORT_EXPIRED ''Passport has expired'' block_only, st)"
    using a d by (intro verifyLocally_expired [of params p plat clock]) auto
  show "verifyLocally_v1_0 plat clock rl (VerifyLocallyParams_v1_0.truncate params)
           = Inr (deny_v1_0 ''PASSPORT_EXPIRED'' ''Passport has expired'' None, rl)"
    using a d
    by (intro verifyLocally_v1_0_expired [of _ p plat clock])
       (auto simp: VerifyLocallyParams_v1_0.defs)
next
  assume a: "passport params = Some p \<and> Date_parse plat (expires_at p) = Some t \<and> t_expiry clock \<le> t
        \<and> verifyLocally plat sdk clock st params = Inr (r, st')"
  show "map_option code (denial r) \<noteq> Some PASSPORT_EXPIRED"
  proof
    assume "map_option code (denial r) = Some PASSPORT_EXPIRED"
    with a have "date_before plat (expires_at p) (t_expiry clock)"
      using expired_code_only_when_before [of plat sdk clock st params r st'] by auto
    with a show False by (simp add: date_before_def)
  qed
next
  assume a: "passport params = Some p \<and> Date_parse plat (expires_at p) = Some t \<and> t_expiry clock \<le> t
        \<and> verifyLocally_v1_0 plat clock rl (VerifyLocallyParams_v1_0.truncate params) = Inr (r0, rl')"
  show "map_option code_v1_0 (denial_v1_0 r0) \<noteq> Some ''PASSPORT_EXPIRED''"
  proof
    assume "map_option code_v1_0 (denial_v1_0 r0) = Some ''PASSPORT_EXPIRED''"
    with a have "date_before plat (expires_at p) (t_expiry clock)"
      using expired_code_only_when_before_v1_0
        [of plat clock rl "VerifyLocallyParams_v1_0.truncate params" r0 rl']
      by (auto simp: VerifyLocallyParams_v1_0.defs)
    with a show False by (simp add: date_before_def)
  qed
qed

text \<open>
  C3 as stated fails: a credential whose \<open>expires_at\<close> is the instant of the call, valid in
  every other respect, is permitted by both versions.
\<close>

theorem expires_at_now_counterexample:
  "passport example_params = Some example_passport
   \<and> Date_parse accepting_platform (expires_at example_passport) = Some (t_expiry boundary_clock)
   \<and> verifyLocally accepting_platform example_sdk boundary_clock example_state example_params
      = Inr (search_permit,
             example_state\<lparr>rateLimiter :=
               increment example_limiter 1893456000000 ''flights:search'' (Some ''passport_test_123'')\<rparr>)
   \<and> allowed search_permit \<and> denial search_permit = None
   \<and> verifyLocally_v1_0 accepting_platform boundary_clock example_limiter
        (VerifyLocallyParams_v1_0.truncate example_params)
      = Inr (\<lparr>allowed_v1_0 = True, denial_v1_0 = None, effective_constraints_v1_0 = Some (plain_object []),
              confident_v1_0 = True\<rparr>,
             increment example_limiter 1893456000000 ''flights:search'' (Some ''passport_test_123''))"
  using run_boundary run_boundary_v1_0
  by (simp add: fixture_defs)

theorem expiry_is_strict_witness:
  "passport example_params = Some example_passport
   \<and> js_get (issuerKeys example_params) (issuer_id example_passport) = Own ''c3d4''
   \<and> verifySignatureSync accepting_platform example_passport (Own ''c3d4'') = Inr True
   \<and> Date_parse accepting_platform (expires_at example_passport) = Some 1893456000000
   \<and> 1893456000000 < t_expiry late_clock
   \<and> verifyLocally accepting_platform example_sdk late_clock example_state example_params
      = Inr (deny PASSPORT_EXPIRED ''Passport has expired'' block_only, example_state)
   \<and> t_expiry boundary_clock \<le> 1893456000000
   \<and> verifyLocally accepting_platform example_sdk boundary_clock example_state example_params
      = Inr (search_permit,
             example_state\<lparr>rateLimiter :=
               increment example_limiter 1893456000000 ''flights:search'' (Some ''passport_test_123'')\<rparr>)
   \<and> map_option code (denial search_permit) \<noteq> Some PASSPORT_EXPIRED"
proof -
  have p: "passport example_params = Some example_passport"
    and d: "Date_parse accepting_platform (expires_at example_passport) = Some 1893456000000"
    and l: "1893456000000 < t_expiry late_clock" and b: "t_expiry boundary_clock \<le> 1893456000000"
    by (simp_all add: fixture_defs)
  note k = run_issuer_key
  have nf: "\<not> falsy_key (js_get (issuerKeys example_params) (issuer_id example_passport))"
    unfolding k by (simp add: falsy_key_def)
  have sg: "verifySignatureSync accepting_platform example_passport
              (js_get (issuerKeys example_params) (issuer_id example_passport)) = Inr True"
    unfolding k by (rule run_accepts_signature)
  note late = expiry_is_strict [where params = example_params and p = example_passport
      and plat = accepting_platform and t = 1893456000000 and clock = late_clock
      and sdk = example_sdk and st = example_state]
  note bound = expiry_is_strict [where params = example_params and p = example_passport
      and plat = accepting_platform and t = 1893456000000 and clock = boundary_clock
      and sdk = example_sdk and st = example_state and r = search_permit]
  have 1: "verifyLocally accepting_platform example_sdk late_clock example_state example_params
      = Inr (deny PASSPORT_EXPIRED ''Passport has expired'' block_only, example_state)"
    using late p nf sg d l by blast
  have 2: "map_option code (denial search_permit) \<noteq> Some PASSPORT_EXPIRED"
    using bound p d b run_boundary by blast
  show ?thesis
    using p k d l b 1 2 run_accepts_signature run_boundary by simp
qed

text \<open>
  C8 fails in both versions. The catalog and the credential index their permissions in
  plain objects, and the hot path reads them by the action name. For the action
  \<open>constructor\<close> both reads find the member inherited from \<open>Object.prototype\<close>, which is
  truthy, so neither of the two permission checks denies; the inherited member has no
  \<open>constraints\<close>, and \<open>Object.entries(undefined)\<close> throws a \<open>TypeError\<close>, in
  \<open>validateConstraints\<close> (version 1.0.0) and in \<open>mergeConstraints\<close> (version 1.2.0). The
  credential is valid: issuer known, signature accepted, not expired, not revoked.
\<close>

theorem hot_path_throws_on_inherited_action:
  "passport (example_params\<lparr>action := ''constructor''\<rparr>) = Some example_passport
   \<and> js_get (permissionsByKey (current example_catalog)) ''constructor'' = Inherited
   \<and> js_get (claimsByKey example_passport) ''constructor'' = Inherited
   \<and> verifyLocally_v1_0 accepting_platform early_clock example_limiter
        (VerifyLocallyParams_v1_0.truncate (example_params\<lparr>action := ''constructor''\<rparr>))
      = Inl TypeError
   \<and> verifyLocally accepting_platform example_sdk early_clock example_state
        (example_params\<lparr>action := ''constructor''\<rparr>)
      = Inl TypeError"
  using run_inherited_action run_constructor run_constructor_v1_0
  by (simp add: example_params_def)

text \<open>
  C9. Determinism of permits. Two calls with the same credential, action, context and cache
  snapshots that both permit return identical results, whatever the clock readings and the
  limiter states of the two calls: in particular a second call at the same instant, on
  the limiter state the first call left. The model is a function, so equal inputs and
  equal state give equal decisions.
\<close>

theorem permit_results_identical:
  "(verifyLocally plat sdk clock1 st1 params = Inr (r1, st1')
      \<and> verifyLocally plat sdk clock2 st2 params = Inr (r2, st2')
      \<and> allowed r1 \<and> allowed r2 \<longrightarrow> r1 = r2)
   \<and> (verifyLocally_v1_0 plat clock1 rl1 params0 = Inr (q1, rl1')
      \<and> verifyLocally_v1_0 plat clock2 rl2 params0 = Inr (q2, rl2')
      \<and> allowed_v1_0 q1 \<and> allowed_v1_0 q2 \<longrightarrow> q1 = q2)"
proof (intro conjI impI)
  assume "verifyLocally plat sdk clock1 st1 params = Inr (r1, st1')
      \<and> verifyLocally plat sdk clock2 st2 params = Inr (r2, st2')
      \<and> allowed r1 \<and> allowed r2"
  then show "r1 = r2"
    using permit_shape [of plat sdk clock1 st1 params r1 st1']
      permit_shape [of plat sdk clock2 st2 params r2 st2'] by simp
next
  assume a: "verifyLocally_v1_0 plat clock1 rl1 params0 = Inr (q1, rl1')
      \<and> verifyLocally_v1_0 plat clock2 rl2 params0 = Inr (q2, rl2')
      \<and> allowed_v1_0 q1 \<and> allowed_v1_0 q2"
  then show "q1 = q2"
    using permit_shape_v1_0 [of plat clock1 rl1 params0 q1 rl1']
      permit_shape_v1_0 [of plat clock2 rl2 params0 q2 rl2'] by auto
qed

lemma run_second_call:
  "verifyLocally accepting_platform example_sdk boundary_clock
      (example_state\<lparr>rateLimiter :=
         increment example_limiter 1893455999000 ''flights:search'' (Some ''passport_test_123'')\<rparr>)
      example_params
   = Inr (search_permit,
          example_state\<lparr>rateLimiter :=
            increment (increment example_limiter 1893455999000 ''flights:search'' (Some ''passport_test_123''))
              1893456000000 ''flights:search'' (Some ''passport_test_123'')\<rparr>)"
  by (simp add: fixture_defs run_defs increment_def)

theorem permit_results_identical_witness:
  "verifyLocally accepting_platform example_sdk early_clock example_state example_params
     = Inr (search_permit,
            example_state\<lparr>rateLimiter :=
              increment example_limiter 1893455999000 ''flights:search'' (Some ''passport_test_123'')\<rparr>)
   \<and> (\<exists>r2 st2'.
         verifyLocally accepting_platform example_sdk boundary_clock
           (example_state\<lparr>rateLimiter :=
              increment example_limiter 1893455999000 ''flights:search'' (Some ''passport_test_123'')\<rparr>)
           example_params = Inr (r2, st2')
         \<and> allowed r2 \<and> r2 = search_permit)"
proof -
  let ?s1 = "example_state\<lparr>rateLimiter :=
              increment example_limiter 1893455999000 ''flights:search'' (Some ''passport_test_123'')\<rparr>"
  obtain r2 st2' where second:
    "verifyLocally accepting_platform example_sdk boundary_clock ?s1 example_params = Inr (r2, st2')"
    and a2: "allowed r2"
    using run_second_call by (simp add: search_permit_def)
  have a1: "allowed search_permit" by (simp add: search_permit_def)
  have "search_permit = r2"
    using permit_results_identical [where plat = accepting_platform and sdk = example_sdk
        and params = example_params and ?clock1.0 = early_clock and ?st1.0 = example_state
        and ?clock2.0 = boundary_clock and ?st2.0 = ?s1 and ?r1.0 = search_permit and ?r2.0 = r2
        and st2' = st2']
      run_early second a1 a2 by blast
  then show ?thesis using run_early second a2 by auto
qed

text \<open>
  C10, as the code has it. On every denial \<open>verifyLocally\<close> leaves the rate limiter as it
  was. On a permit of a presented credential the limiter after the call is the one before
  it with \<open>increment(action, passport_id)\<close> applied once; on an anonymous permit (version
  1.2.0, no credential) it is unchanged. One \<open>increment\<close> changes nothing when no limit is
  registered for the action; otherwise it leaves the limits and every other bucket alone
  and sets the bucket keyed by action and credential id to count 1 with a new window when
  the bucket is absent or expired, and raises its count by one when it is live.
\<close>

theorem rate_limiter_frame:
  "(verifyLocally plat sdk clock st params = Inr (r, st') \<longrightarrow>
       (\<not> allowed r \<longrightarrow> rateLimiter st' = rateLimiter st)
     \<and> (allowed r \<and> passport params = None \<longrightarrow> rateLimiter st' = rateLimiter st)
     \<and> (allowed r \<and> passport params = Some p \<longrightarrow>
          rateLimiter st' = increment (rateLimiter st) (t_increment clock) (action params)
                              (Some (passport_id p))))
   \<and> (verifyLocally_v1_0 plat clock rl params0 = Inr (r0, rl') \<longrightarrow>
       (\<not> allowed_v1_0 r0 \<longrightarrow> rl' = rl)
     \<and> (allowed_v1_0 r0 \<longrightarrow>
          (\<exists>q. passport params0 = Some q
             \<and> rl' = increment rl (t_increment clock) (action params0) (Some (passport_id q)))))
   \<and> (limits rl a = None \<longrightarrow> increment rl t a pid = rl)
   \<and> (limits rl a = Some l \<longrightarrow>
        limits (increment rl t a pid) = limits rl
        \<and> (\<forall>k. k \<noteq> getBucketKey a pid \<longrightarrow> buckets (increment rl t a pid) k = buckets rl k)
        \<and> buckets (increment rl t a pid) (getBucketKey a pid)
            = Some (case buckets rl (getBucketKey a pid) of
                      None \<Rightarrow> \<lparr>count = 1, resetAt = t + windowMs l\<rparr>
                    | Some b \<Rightarrow>
                        if resetAt b \<le> t then \<lparr>count = 1, resetAt = t + windowMs l\<rparr>
                        else b\<lparr>count := count b + 1\<rparr>))"
  using frame_v1_2 [of plat sdk clock st params r st' p]
    frame_v1_0 [of plat clock rl params0 r0 rl']
    increment_effect [of rl a t pid l]
  by blast

lemma run_late:
  "verifyLocally accepting_platform example_sdk late_clock example_state example_params
   = Inr (deny PASSPORT_EXPIRED ''Passport has expired'' block_only, example_state)"
  by (simp add: fixture_defs run_defs)

theorem rate_limiter_frame_witness:
  "verifyLocally accepting_platform example_sdk late_clock example_state example_params
     = Inr (deny PASSPORT_EXPIRED ''Passport has expired'' block_only, example_state)
   \<and> \<not> allowed (deny PASSPORT_EXPIRED ''Passport has expired'' block_only)
   \<and> rateLimiter example_state = example_limiter
   \<and> (\<exists>st'. verifyLocally accepting_platform example_sdk early_clock example_state example_params
          = Inr (search_permit, st')
        \<and> allowed search_permit
        \<and> rateLimiter st'
            = increment example_limiter 1893455999000 ''flights:search'' (Some ''passport_test_123'')
        \<and> buckets (rateLimiter st') ''flights:search:passport_test_123''
            = Some \<lparr>count = 1, resetAt = 1893456059000\<rparr>
        \<and> buckets (rateLimiter st') ''data:read'' = None)"
proof -
  let ?s = "example_state\<lparr>rateLimiter :=
      increment example_limiter 1893455999000 ''flights:search'' (Some ''passport_test_123'')\<rparr>"
  note t = rate_limiter_frame [where plat = accepting_platform and sdk = example_sdk
      and clock = early_clock and st = example_state and params = example_params
      and r = search_permit and st' = ?s and p = example_passport
      and rl = example_limiter and a = "''flights:search''" and t = 1893455999000
      and pid = "Some ''passport_test_123''" and l = "\<lparr>max' = 2, windowMs = 60000\<rparr>"]
  have a: "allowed search_permit" by (simp add: search_permit_def)
  have p: "passport example_params = Some example_passport" by (simp add: example_params_def)
  have l: "limits example_limiter ''flights:search'' = Some \<lparr>max' = 2, windowMs = 60000\<rparr>"
    by (simp add: example_limiter_def setLimit_def)
  have key: "getBucketKey ''flights:search'' (Some ''passport_test_123'')
      = ''flights:search:passport_test_123''"
    by (simp add: getBucketKey_def)
  have e: "buckets example_limiter ''flights:search:passport_test_123'' = None"
      "buckets example_limiter ''data:read'' = None"
    by (simp_all add: example_limiter_def setLimit_def)
  have 1: "rateLimiter ?s
      = increment example_limiter 1893455999000 ''flights:search'' (Some ''passport_test_123'')"
    using t run_early a p by (simp add: fixture_defs)
  have 2: "buckets (increment example_limiter 1893455999000 ''flights:search'' (Some ''passport_test_123''))
             ''flights:search:passport_test_123'' = Some \<lparr>count = 1, resetAt = 1893456059000\<rparr>"
    using t l key e by simp
  have 3: "buckets (increment example_limiter 1893455999000 ''flights:search'' (Some ''passport_test_123''))
             ''data:read'' = None"
    using t l key e by simp
  show ?thesis
    using run_late run_early a 1 2 3
    by (simp add: deny_fields example_state_def)
qed

text \<open>
  C10 as stated fails on the anonymous branch of version 1.2.0: the call permits, a limit is
  registered for the action, and no bucket of the rate limiter is incremented.
\<close>

theorem anonymous_permit_counterexample:
  "passport (example_params\<lparr>passport := None, action := ''data:read''\<rparr>) = None
   \<and> limits (rateLimiter example_state) ''data:read'' = Some \<lparr>max' = 5, windowMs = 60000\<rparr>
   \<and> verifyLocally accepting_platform example_sdk early_clock example_state
        (example_params\<lparr>passport := None, action := ''data:read''\<rparr>)
      = Inr (anonymous_permit, example_state)
   \<and> allowed anonymous_permit \<and> decision anonymous_permit = Permit
   \<and> buckets (rateLimiter example_state) = Map.empty"
  using run_anonymous
  by (simp add: example_state_def example_limiter_def setLimit_def anonymous_permit_def example_params_def)

end
